theory Spec2Isabelle
  imports Main "HOL-Library.AList"
begin

section \<open>JavaScript values and objects\<close>

text \<open>
  The provider of \<^verbatim>\<open>src/google-recaptcha-provider.tsx\<close> passes plain JavaScript objects
  around (\<^verbatim>\<open>scriptProps\<close>, \<^verbatim>\<open>container.parameters\<close>, the render parameters). An object is
  an association list in insertion order with distinct keys; a function value is known
  only by its identity. Numbers are the integers (\<^verbatim>\<open>tabindex\<close> is the only number of the
  configuration).
\<close>

datatype js_value = JUndefined | JBool bool | JNum int | JStr string | JFun nat

type_synonym js_object = "(string \<times> js_value) list"

datatype js_error = TypeError | Error string

definition get_prop :: "js_object \<Rightarrow> string \<Rightarrow> js_value" where
  "get_prop obj k = (case map_of obj k of None \<Rightarrow> JUndefined | Some v \<Rightarrow> v)"

text \<open>Optional chaining \<^verbatim>\<open>obj?.k\<close>.\<close>

definition opt_prop :: "js_object option \<Rightarrow> string \<Rightarrow> js_value" where
  "opt_prop obj k = (case obj of None \<Rightarrow> JUndefined | Some ob \<Rightarrow> get_prop ob k)"

text \<open>
  \<^verbatim>\<open>v || d\<close> for a property declared \<^verbatim>\<open>string | undefined\<close>: the empty string and
  \<^verbatim>\<open>undefined\<close> are falsy. A value of another type, which the interface excludes, is
  treated like \<^verbatim>\<open>undefined\<close>.
\<close>

definition str_or :: "js_value \<Rightarrow> string \<Rightarrow> string" where
  "str_or v d = (case v of JStr s \<Rightarrow> (if s = [] then d else s) | _ \<Rightarrow> d)"

text \<open>
  Object spread \<^verbatim>\<open>{...base, ...ext}\<close>: every own property of \<^verbatim>\<open>ext\<close> is assigned in
  order; an existing key keeps its position and takes the new value (also the value
  \<^verbatim>\<open>undefined\<close>), a new key goes to the end.
\<close>

definition spread :: "js_object \<Rightarrow> js_object \<Rightarrow> js_object" where
  "spread base ext = foldl (\<lambda>acc kv. AList.update (fst kv) (snd kv) acc) base ext"

subsection \<open>\<^verbatim>\<open>JSON.stringify\<close>\<close>

text \<open>
  The text \<^verbatim>\<open>JSON.stringify\<close> produces for a flat object is represented by the sequence of
  members it prints: two texts are equal exactly when they print the same members in
  the same order. Members whose value is a function or \<^verbatim>\<open>undefined\<close> are not printed;
  \<^verbatim>\<open>JSON.stringify(undefined)\<close> is \<^verbatim>\<open>undefined\<close>.
\<close>

datatype json = JsonBool bool | JsonNum int | JsonStr string

type_synonym json_text = "(string \<times> json) list"

fun json_value :: "js_value \<Rightarrow> json option" where
  "json_value JUndefined = None"
| "json_value (JFun f) = None"
| "json_value (JBool b) = Some (JsonBool b)"
| "json_value (JNum n) = Some (JsonNum n)"
| "json_value (JStr s) = Some (JsonStr s)"

fun json_members :: "js_object \<Rightarrow> json_text" where
  "json_members [] = []"
| "json_members (kv # kvs) =
     (case json_value (snd kv) of
        None \<Rightarrow> json_members kvs
      | Some j \<Rightarrow> (fst kv, j) # json_members kvs)"

definition JSON_stringify :: "js_object option \<Rightarrow> json_text option" where
  "JSON_stringify obj = map_option json_members obj"

section \<open>Configuration\<close>

text \<open>\<^verbatim>\<open>string | HTMLElement\<close>: a selector, or a DOM node known by its identity.\<close>

datatype dom_element = Selector string | Node nat

record container_props =
  element :: "dom_element option"
  parameters :: js_object

text \<open>\<^verbatim>\<open>IGoogleReCaptchaProviderProps\<close>; \<^verbatim>\<open>children\<close> is known by its identity.\<close>

record config =
  reCaptchaKey :: string
  language :: "string option"
  useRecaptchaNet :: bool
  useEnterprise :: bool
  scriptProps :: "js_object option"
  container :: "container_props option"
  children :: nat

text \<open>\<^verbatim>\<open>container?.element\<close> and \<^verbatim>\<open>container?.parameters\<close>.\<close>

definition container_element :: "config \<Rightarrow> dom_element option" where
  "container_element c = (case container c of None \<Rightarrow> None | Some ct \<Rightarrow> element ct)"

definition container_parameters :: "config \<Rightarrow> js_object option" where
  "container_parameters c = map_option parameters (container c)"

text \<open>Truthiness of \<^verbatim>\<open>container?.element\<close>: \<^verbatim>\<open>undefined\<close> and the empty selector are falsy.\<close>

fun element_truthy :: "dom_element option \<Rightarrow> bool" where
  "element_truthy None = False"
| "element_truthy (Some (Selector sel)) = (sel \<noteq> [])"
| "element_truthy (Some (Node n)) = True"

section \<open>The verification engine\<close>

text \<open>\<^verbatim>\<open>clientId\<close> is \<^verbatim>\<open>number | string\<close>.\<close>

datatype ident = IdStr string | IdNum int

text \<open>
  What becomes of an asynchronous call: still suspended, rejected, or resolved with a
  token; \<open>Threw\<close> is a synchronous exception of a call that never returned a promise.
\<close>

datatype outcome = Suspended | Threw js_error | Rejected js_error | Resolved string

text \<open>
  The engine is a collaborator: \<^verbatim>\<open>window.grecaptcha\<close> with \<^verbatim>\<open>ready\<close>, \<^verbatim>\<open>execute\<close> and
  \<^verbatim>\<open>render\<close>, and the same three under \<^verbatim>\<open>.enterprise\<close>. Each function may be absent;
  \<^verbatim>\<open>render\<close> may throw.
\<close>

record namespace =
  ns_ready :: bool
  ns_execute :: "(ident \<Rightarrow> string option \<Rightarrow> outcome) option"
  ns_render :: "(dom_element option \<Rightarrow> js_object \<Rightarrow> js_error + ident) option"

record grecaptcha =
  standard :: namespace
  enterprise :: "namespace option"

text \<open>\<^verbatim>\<open>useEnterprise ? window.grecaptcha.enterprise : window.grecaptcha\<close>.\<close>

definition select_namespace :: "bool \<Rightarrow> grecaptcha \<Rightarrow> namespace option" where
  "select_namespace ue g = (if ue then enterprise g else Some (standard g))"

section \<open>State of one mounted provider and of the page around it\<close>

datatype 'a deferred = Pending | Fulfilled 'a | Broken js_error

text \<open>
  The two handlers handed to the script loader are closures: \<^verbatim>\<open>onLoad\<close> captures
  \<^verbatim>\<open>useEnterprise\<close>, \<^verbatim>\<open>onError\<close> captures nothing but the ref of the deferred value.
\<close>

datatype handler = OnLoad bool | OnError

record script_tag =
  tag_id :: string
  src_render :: string
  src_onload :: string
  src_enterprise :: bool
  src_recaptcha_net :: bool
  src_language :: "string option"
  tag_nonce :: js_value
  tag_async :: bool
  tag_defer :: bool
  tag_appendTo :: string
  tag_onload :: handler
  tag_onerror :: handler

record inject_args =
  arg_render :: string
  arg_onLoadCallbackName :: string
  arg_useEnterprise :: bool
  arg_useRecaptchaNet :: bool
  arg_scriptProps :: "js_object option"
  arg_language :: "string option"
  arg_onLoad :: handler
  arg_onError :: handler

text \<open>The dependency list of the effect, in the order of the source.\<close>

record deps =
  dep_useEnterprise :: bool
  dep_useRecaptchaNet :: bool
  dep_scriptPropsJson :: "json_text option"
  dep_parametersJson :: "json_text option"
  dep_language :: "string option"
  dep_reCaptchaKey :: string
  dep_element :: "dom_element option"

text \<open>Calls of the two script-loader helpers, in the order they happen.\<close>

datatype lifecycle = Injection string | Teardown string

record state =
  mounted :: bool
  promise :: "namespace option deferred"
  clientId :: ident
  lastDeps :: "deps option"
  cleanupFn :: "(string \<times> dom_element option) option"
  waiting :: "string option list"
  settled_calls :: "(string option \<times> outcome) list"
  window_slots :: "string \<rightharpoonup> config"
  window_grecaptcha :: "grecaptcha option"
  document :: "script_tag list"
  widgets :: "dom_element list"
  console :: "string list"
  render_log :: "(dom_element option \<times> js_object) list"
  ready_callbacks :: "namespace list"
  uncaught :: "js_error list"
  lifecycle_log :: "lifecycle list"

section \<open>The helpers imported from \<^verbatim>\<open>./utils\<close>\<close>

text \<open>
  Modelled from the spec: \<^verbatim>\<open>logWarningMessage\<close> is not among the sources; the spec calls it
  console logging, so it appends the message to the console.
\<close>

definition logWarningMessage :: "string \<Rightarrow> state \<Rightarrow> state" where
  "logWarningMessage msg s = s\<lparr>console := console s @ [msg]\<rparr>"

text \<open>
  Modelled from the spec: \<^verbatim>\<open>promiseWithResolvers\<close> is not among the sources. The spec
  describes a deferred value that starts pending and is resolved at most once, a later
  resolution being a no-op. The provider never calls its \<^verbatim>\<open>reject\<close>.
\<close>

definition promiseWithResolvers :: "namespace option deferred" where
  "promiseWithResolvers = Pending"

definition resolve :: "namespace option \<Rightarrow> state \<Rightarrow> state" where
  "resolve v s = (case promise s of Pending \<Rightarrow> s\<lparr>promise := Fulfilled v\<rparr> | _ \<Rightarrow> s)"

definition bool_or :: "js_value \<Rightarrow> bool \<Rightarrow> bool" where
  "bool_or v d = (case v of JBool b \<Rightarrow> b | _ \<Rightarrow> d)"

text \<open>
  Modelled from the spec: \<^verbatim>\<open>injectGoogleReCaptchaScript\<close> is not among the sources. By
  section 4.1 of the spec it builds the source URL from the \<^verbatim>\<open>render\<close> parameter, the
  callback name, the enterprise and alternate-host flags and the language, sets the tag
  attributes from the script options (\<^verbatim>\<open>async\<close> and \<^verbatim>\<open>defer\<close> default to true, the
  insertion point to the head, the id to a fixed constant, taken here to be the one the
  provider's cleanup uses), wires the two handlers and inserts the tag.
\<close>

definition injectGoogleReCaptchaScript :: "inject_args \<Rightarrow> state \<Rightarrow> state" where
  "injectGoogleReCaptchaScript a s =
     (let sp = arg_scriptProps a;
          tag = \<lparr>tag_id = str_or (opt_prop sp ''id'') ''google-recaptcha-v3'',
                 src_render = arg_render a,
                 src_onload = arg_onLoadCallbackName a,
                 src_enterprise = arg_useEnterprise a,
                 src_recaptcha_net = arg_useRecaptchaNet a,
                 src_language = arg_language a,
                 tag_nonce = opt_prop sp ''nonce'',
                 tag_async = bool_or (opt_prop sp ''async'') True,
                 tag_defer = bool_or (opt_prop sp ''defer'') True,
                 tag_appendTo = str_or (opt_prop sp ''appendTo'') ''head'',
                 tag_onload = arg_onLoad a,
                 tag_onerror = arg_onError a\<rparr>
      in s\<lparr>document := document s @ [tag],
            lifecycle_log := lifecycle_log s @ [Injection (tag_id tag)]\<rparr>)"

text \<open>
  Modelled from the spec: \<^verbatim>\<open>cleanGoogleRecaptcha\<close> is not among the sources. By section 4.1
  of the spec, \<^verbatim>\<open>remove(scriptId, mountElement?)\<close> detaches the injected tag by its id and,
  only in explicit-render mode, the DOM artifact of the rendered widget. It is given
  neither the callback name nor the slot.
\<close>

definition cleanGoogleRecaptcha :: "string \<Rightarrow> dom_element option \<Rightarrow> state \<Rightarrow> state" where
  "cleanGoogleRecaptcha scriptId el s =
     s\<lparr>document := filter (\<lambda>t. tag_id t \<noteq> scriptId) (document s),
       widgets := (if element_truthy el then filter (\<lambda>w. Some w \<noteq> el) (widgets s)
                   else widgets s),
       lifecycle_log := lifecycle_log s @ [Teardown scriptId]\<rparr>"

section \<open>The provider\<close>

subsection \<open>The default context value\<close>

definition default_executeRecaptcha :: "string option \<Rightarrow> outcome" where
  "default_executeRecaptcha action =
     Threw (Error ''GoogleReCaptcha Context has not yet been implemented, if you are using useGoogleReCaptcha hook, make sure the hook is called inside component wrapped by GoogleRecaptchaProvider'')"

subsection \<open>The effect\<close>

definition script_id :: "config \<Rightarrow> string" where
  "script_id c = str_or (opt_prop (scriptProps c) ''id'') ''google-recaptcha-v3''"

definition onLoadCallbackName :: "config \<Rightarrow> string" where
  "onLoadCallbackName c =
     str_or (opt_prop (scriptProps c) ''onLoadCallbackName'') ''onRecaptchaLoadCallback''"

text \<open>An exception that leaves an event handler is uncaught; the handler's work stops there.\<close>

definition throw :: "js_error \<Rightarrow> state \<Rightarrow> state" where
  "throw e s = s\<lparr>uncaught := uncaught s @ [e]\<rparr>"

definition default_params :: "string \<Rightarrow> js_object" where
  "default_params key =
     [(''badge'', JStr ''inline''), (''size'', JStr ''invisible''), (''sitekey'', JStr key)]"

text \<open>\<^verbatim>\<open>container?.parameters || {}\<close>: an object is always truthy.\<close>

definition supplied_parameters :: "config \<Rightarrow> js_object" where
  "supplied_parameters c = (case container_parameters c of None \<Rightarrow> [] | Some p \<Rightarrow> p)"

definition render_params :: "config \<Rightarrow> js_object" where
  "render_params c = spread (default_params (reCaptchaKey c)) (supplied_parameters c)"

text \<open>
  The function stored under \<^verbatim>\<open>window[onLoadCallbackName]\<close> (lines 96 to 110), a closure over
  the configuration. A successful \<^verbatim>\<open>render\<close> against an element leaves the widget's
  artifact in the page.
\<close>

definition onLoadCallback :: "config \<Rightarrow> state \<Rightarrow> state" where
  "onLoadCallback c s =
     (case window_grecaptcha s of
        None \<Rightarrow> throw TypeError s
      | Some g \<Rightarrow>
          (case select_namespace (useEnterprise c) g of
             None \<Rightarrow> throw TypeError s
           | Some ns \<Rightarrow>
               (case ns_render ns of
                  None \<Rightarrow> throw TypeError s
                | Some r \<Rightarrow>
                    (let params = render_params c;
                         el = container_element c;
                         s1 = s\<lparr>render_log := render_log s @ [(el, params)]\<rparr>
                     in case r el params of
                          Inl e \<Rightarrow> throw e s1
                        | Inr i \<Rightarrow>
                            s1\<lparr>clientId := i,
                               widgets := (case el of None \<Rightarrow> widgets s1
                                           | Some w \<Rightarrow> widgets s1 @ [w])\<rparr>))))"

text \<open>\<^verbatim>\<open>onLoad\<close> (lines 112 to 129); \<^verbatim>\<open>grecaptcha.ready\<close> keeps the continuation for later.\<close>

definition onLoad :: "bool \<Rightarrow> state \<Rightarrow> state" where
  "onLoad ue s =
     (case window_grecaptcha s of
        None \<Rightarrow>
          resolve None
            (logWarningMessage ''<GoogleRecaptchaProvider /> Recaptcha script is not available'' s)
      | Some g \<Rightarrow>
          (case select_namespace ue g of
             None \<Rightarrow> throw TypeError s
           | Some ns \<Rightarrow>
               (if ns_ready ns then s\<lparr>ready_callbacks := ready_callbacks s @ [ns]\<rparr>
                else throw TypeError s)))"

text \<open>\<^verbatim>\<open>onError\<close> (lines 131 to 134).\<close>

definition onError :: "state \<Rightarrow> state" where
  "onError s = resolve None (logWarningMessage ''Error loading google recaptcha script'' s)"

fun run_handler :: "handler \<Rightarrow> state \<Rightarrow> state" where
  "run_handler (OnLoad ue) s = onLoad ue s"
| "run_handler OnError s = onError s"

text \<open>The body of the effect (lines 82 to 149); it leaves its cleanup function, if any.\<close>

definition effect :: "config \<Rightarrow> state \<Rightarrow> state" where
  "effect c s =
     (if reCaptchaKey c = [] then
        (resolve None
           (logWarningMessage ''<GoogleReCaptchaProvider /> recaptcha key not provided'' s))
          \<lparr>cleanupFn := None\<rparr>
      else
        (let s1 = s\<lparr>window_slots := (window_slots s)(onLoadCallbackName c \<mapsto> c)\<rparr>;
             s2 = injectGoogleReCaptchaScript
                    \<lparr>arg_render = (if element_truthy (container_element c) then ''explicit''
                                    else reCaptchaKey c),
                     arg_onLoadCallbackName = onLoadCallbackName c,
                     arg_useEnterprise = useEnterprise c,
                     arg_useRecaptchaNet = useRecaptchaNet c,
                     arg_scriptProps = scriptProps c,
                     arg_language = language c,
                     arg_onLoad = OnLoad (useEnterprise c),
                     arg_onError = OnError\<rparr> s1
         in s2\<lparr>cleanupFn := Some (script_id c, container_element c)\<rparr>))"

definition deps_of :: "config \<Rightarrow> deps" where
  "deps_of c =
     \<lparr>dep_useEnterprise = useEnterprise c,
      dep_useRecaptchaNet = useRecaptchaNet c,
      dep_scriptPropsJson = JSON_stringify (scriptProps c),
      dep_parametersJson = JSON_stringify (container_parameters c),
      dep_language = language c,
      dep_reCaptchaKey = reCaptchaKey c,
      dep_element = container_element c\<rparr>"

definition run_cleanup :: "state \<Rightarrow> state" where
  "run_cleanup s =
     (case cleanupFn s of
        None \<Rightarrow> s
      | Some (scriptId, el) \<Rightarrow> (cleanGoogleRecaptcha scriptId el s)\<lparr>cleanupFn := None\<rparr>)"

subsection \<open>The life of the component\<close>

text \<open>
  The first render creates the two refs (lines 72 to 77) and runs the effect. A later
  render runs the previous cleanup and the effect again exactly when a dependency
  changed; unmounting runs the cleanup. The page starts without scripts and engine.
\<close>

definition initial_state :: "config \<Rightarrow> state" where
  "initial_state c =
     \<lparr>mounted = True, promise = promiseWithResolvers, clientId = IdStr (reCaptchaKey c),
      lastDeps = None, cleanupFn = None, waiting = [], settled_calls = [],
      window_slots = Map.empty, window_grecaptcha = None, document = [], widgets = [],
      console = [], render_log = [], ready_callbacks = [], uncaught = [],
      lifecycle_log = []\<rparr>"

definition mount :: "config \<Rightarrow> state" where
  "mount c = (effect c (initial_state c))\<lparr>lastDeps := Some (deps_of c)\<rparr>"

definition rerender :: "config \<Rightarrow> state \<Rightarrow> state" where
  "rerender c s =
     (if \<not> mounted s then s
      else if lastDeps s = Some (deps_of c) then s
      else (effect c (run_cleanup s))\<lparr>lastDeps := Some (deps_of c)\<rparr>)"

definition unmount :: "state \<Rightarrow> state" where
  "unmount s = (if \<not> mounted s then s else (run_cleanup s)\<lparr>mounted := False\<rparr>)"

subsection \<open>\<^verbatim>\<open>executeRecaptcha\<close>\<close>

definition not_loaded :: js_error where
  "not_loaded = Error ''<GoogleReCaptchaProvider /> Google Recaptcha has not been loaded''"

text \<open>
  \<^verbatim>\<open>executeRecaptcha\<close> is an async function: an exception thrown in its body, also by
  the engine's \<^verbatim>\<open>execute\<close>, rejects the promise it returned; whatever else \<^verbatim>\<open>execute\<close>
  returns is awaited and passed on as it is.
\<close>

fun awaited :: "outcome \<Rightarrow> outcome" where
  "awaited (Threw e) = Rejected e"
| "awaited r = r"

text \<open>What \<^verbatim>\<open>executeRecaptcha\<close> does once the awaited value has arrived (lines 164 to 170).\<close>

definition resume :: "namespace option \<Rightarrow> ident \<Rightarrow> string option \<Rightarrow> outcome" where
  "resume v cid action =
     (case v of
        None \<Rightarrow> Rejected not_loaded
      | Some ns \<Rightarrow>
          (case ns_execute ns of
             None \<Rightarrow> Rejected not_loaded
           | Some exec \<Rightarrow> awaited (exec cid action)))"

text \<open>The outcome of a call made in state \<open>s\<close>, as far as \<open>s\<close> decides it.\<close>

definition executeRecaptcha :: "state \<Rightarrow> string option \<Rightarrow> outcome" where
  "executeRecaptcha s action =
     (case promise s of
        Pending \<Rightarrow> Suspended
      | Fulfilled v \<Rightarrow> resume v (clientId s) action
      | Broken e \<Rightarrow> Rejected e)"

text \<open>
  Calls suspended at the \<^verbatim>\<open>await\<close> continue as soon as the deferred value is settled,
  after the handler that settled it has finished.
\<close>

definition flush :: "state \<Rightarrow> state" where
  "flush s =
     (case promise s of
        Pending \<Rightarrow> s
      | _ \<Rightarrow> s\<lparr>settled_calls :=
                 settled_calls s @ map (\<lambda>a. (a, executeRecaptcha s a)) (waiting s),
               waiting := []\<rparr>)"

subsection \<open>Events\<close>

text \<open>
  What can happen to a mounted provider: React renders it again or unmounts it, the
  external script runs and defines the engine, the script calls a global callback by
  name, the browser fires the load or error event of a script tag, the engine calls
  the next continuation given to \<^verbatim>\<open>ready\<close>, a consumer calls \<^verbatim>\<open>executeRecaptcha\<close>.
\<close>

datatype event =
    Rerender config
  | Unmount
  | ScriptRuns grecaptcha
  | GlobalCallback string
  | ScriptLoad script_tag
  | ScriptError script_tag
  | EngineReady
  | Execute "string option"

definition invoke_global :: "string \<Rightarrow> state \<Rightarrow> state" where
  "invoke_global name s =
     (case window_slots s name of None \<Rightarrow> throw TypeError s | Some c \<Rightarrow> onLoadCallback c s)"

definition engine_ready :: "state \<Rightarrow> state" where
  "engine_ready s =
     (case ready_callbacks s of
        [] \<Rightarrow> s
      | ns # rest \<Rightarrow> resolve (Some ns) (s\<lparr>ready_callbacks := rest\<rparr>))"

fun step :: "event \<Rightarrow> state \<Rightarrow> state" where
  "step (Rerender c) s = flush (rerender c s)"
| "step Unmount s = flush (unmount s)"
| "step (ScriptRuns g) s = s\<lparr>window_grecaptcha := Some g\<rparr>"
| "step (GlobalCallback name) s = flush (invoke_global name s)"
| "step (ScriptLoad t) s = flush (run_handler (tag_onload t) s)"
| "step (ScriptError t) s = flush (run_handler (tag_onerror t) s)"
| "step EngineReady s = flush (engine_ready s)"
| "step (Execute action) s = flush (s\<lparr>waiting := waiting s @ [action]\<rparr>)"

fun run :: "event list \<Rightarrow> state \<Rightarrow> state" where
  "run [] s = s"
| "run (e # es) s = run es (step e s)"

subsection \<open>Properties of events and members used in the statements below\<close>

text \<open>An event that is only a call of the global callback or of \<^verbatim>\<open>executeRecaptcha\<close>.\<close>

fun quiet :: "event \<Rightarrow> bool" where
  "quiet (GlobalCallback name) = True"
| "quiet (Execute action) = True"
| "quiet e = False"

fun is_global_callback :: "event \<Rightarrow> bool" where
  "is_global_callback (GlobalCallback name) = True"
| "is_global_callback e = False"


text \<open>A member that \<^verbatim>\<open>JSON.stringify\<close> prints.\<close>

definition serialisable :: "string \<times> js_value \<Rightarrow> bool" where
  "serialisable kv = (json_value (snd kv) \<noteq> None)"

section \<open>Scenarios\<close>

text \<open>An engine whose \<^verbatim>\<open>execute\<close> tells which identifier it was given.\<close>

definition demo_namespace :: namespace where
  "demo_namespace =
     \<lparr>ns_ready = True,
      ns_execute = Some (\<lambda>i action.
        Resolved (case i of IdStr k \<Rightarrow> ''token for key '' @ k
                  | IdNum n \<Rightarrow> ''token for widget'')),
      ns_render = Some (\<lambda>el params. Inr (IdNum 7))\<rparr>"

definition demo_engine :: grecaptcha where
  "demo_engine = \<lparr>standard = demo_namespace, enterprise = None\<rparr>"

text \<open>Scenario A of the spec: key \<^verbatim>\<open>abc\<close>, no container.\<close>

definition scenario_A :: config where
  "scenario_A =
     \<lparr>reCaptchaKey = ''abc'', language = None, useRecaptchaNet = False,
      useEnterprise = False, scriptProps = None, container = None, children = 0\<rparr>"

text \<open>Scenario B of the spec: key \<^verbatim>\<open>abc\<close>, an explicit mount element and parameters.\<close>

definition scenario_B :: config where
  "scenario_B =
     \<lparr>reCaptchaKey = ''abc'', language = None, useRecaptchaNet = False,
      useEnterprise = False,
      scriptProps = Some [(''async'', JBool True), (''id'', JStr ''captcha'')],
      container = Some \<lparr>element = Some (Selector ''#box''),
        parameters = [(''badge'', JStr ''bottomleft''), (''callback'', JFun 1)]\<rparr>,
      children = 0\<rparr>"

text \<open>Scenario B rendered again with another callback function.\<close>

definition scenario_B_callback :: config where
  "scenario_B_callback =
     scenario_B\<lparr>container := Some \<lparr>element = Some (Selector ''#box''),
       parameters = [(''badge'', JStr ''bottomleft''), (''callback'', JFun 2)]\<rparr>\<rparr>"

text \<open>Scenario B rendered again with the same script options written in another order.\<close>

definition scenario_B_reordered :: config where
  "scenario_B_reordered =
     scenario_B\<lparr>scriptProps := Some [(''id'', JStr ''captcha''), (''async'', JBool True)]\<rparr>"

text \<open>Scenario C of the spec: no key.\<close>

definition scenario_C :: config where
  "scenario_C = scenario_A\<lparr>reCaptchaKey := []\<rparr>"

text \<open>Scenario A after the engine arrived, the global callback fired and the engine got ready.\<close>

definition scenario_A_ready :: state where
  "scenario_A_ready =
     run [ScriptRuns demo_engine, GlobalCallback ''onRecaptchaLoadCallback'',
          ScriptLoad (last (document (mount scenario_A))), EngineReady]
       (mount scenario_A)"

text \<open>Scenario A with two calls suspended and the ready continuation registered.\<close>

definition scenario_A_waiting :: state where
  "scenario_A_waiting =
     run [Execute (Some ''login''), Execute (Some ''signup''), ScriptRuns demo_engine,
          ScriptLoad (last (document (mount scenario_A)))]
       (mount scenario_A)"

text \<open>An engine with both namespaces, whose \<^verbatim>\<open>render\<close> functions return different handles.\<close>

definition dual_engine :: grecaptcha where
  "dual_engine =
     \<lparr>standard = demo_namespace,
      enterprise = Some (demo_namespace\<lparr>ns_render := Some (\<lambda>el params. Inr (IdNum 8))\<rparr>)\<rparr>"

text \<open>Scenario B with the enterprise flag.\<close>

definition scenario_B_enterprise :: config where
  "scenario_B_enterprise = scenario_B\<lparr>useEnterprise := True\<rparr>"

text \<open>Scenario A rendered again with a language.\<close>

definition scenario_A_fr :: config where
  "scenario_A_fr = scenario_A\<lparr>language := Some ''fr''\<rparr>"

text \<open>Scenario A whose script failed to load, then rendered again with a language.\<close>

definition scenario_A_failed :: state where
  "scenario_A_failed =
     run [ScriptError (last (document (mount scenario_A))), Rerender scenario_A_fr]
       (mount scenario_A)"

text \<open>Scenario A whose engine got ready, then rendered again with a language.\<close>

definition scenario_A_reconfigured :: state where
  "scenario_A_reconfigured =
     run [ScriptRuns demo_engine, ScriptLoad (last (document (mount scenario_A))),
          EngineReady, Rerender scenario_A_fr]
       (mount scenario_A)"

text \<open>Scenario A rendered again with a language while its script is still loading.\<close>

definition scenario_A_pending :: state where
  "scenario_A_pending = step (Rerender scenario_A_fr) (mount scenario_A)"

text \<open>Scenario B after the engine arrived and the global callback rendered the widget.\<close>

definition scenario_B_rendered :: state where
  "scenario_B_rendered =
     run [ScriptRuns demo_engine, GlobalCallback ''onRecaptchaLoadCallback'']
       (mount scenario_B)"

section \<open>Invariants\<close>



section \<open>Object spread\<close>

lemma map_of_spread: "map_of (spread base ext) = map_of base ++ map_of (rev ext)"
  unfolding spread_def
proof (induction ext arbitrary: base)
  case Nil
  then show ?case by simp
next
  case (Cons kv ext)
  have "map_of (AList.update (fst kv) (snd kv) base) ++ map_of (rev ext)
        = map_of base ++ (map_of [kv] ++ map_of (rev ext))"
    by (cases kv) (auto simp: update_conv' map_add_def fun_eq_iff split: option.splits)
  with Cons show ?case by simp
qed

lemma map_of_rev_distinct: "distinct (map fst xs) \<Longrightarrow> map_of (rev xs) = map_of xs"
proof (induction xs)
  case Nil
  then show ?case by simp
next
  case (Cons kv xs)
  then have none: "map_of xs (fst kv) = None"
    by (simp add: map_of_eq_None_iff)
  from Cons have "map_of (rev xs) = map_of xs" by simp
  with none show ?case
    by (cases kv) (auto simp: map_add_def fun_eq_iff split: option.splits)
qed

lemma get_prop_spread:
  "distinct (map fst ext) \<Longrightarrow>
   get_prop (spread base ext) k
     = (case map_of ext k of Some v \<Rightarrow> v | None \<Rightarrow> get_prop base k)"
  by (simp add: get_prop_def map_of_spread map_of_rev_distinct map_add_def
      split: option.splits)

section \<open>The render parameters and the engine namespace\<close>

text \<open>
  Claim C10. The global callback calls \<^verbatim>\<open>render\<close> with the defaults \<^verbatim>\<open>badge: 'inline'\<close>,
  \<^verbatim>\<open>size: 'invisible'\<close>, \<^verbatim>\<open>sitekey: <key>\<close> merged with the container parameters of the
  caller: every property the caller supplies takes the caller's value, every other
  property keeps its default. The namespace whose \<^verbatim>\<open>render\<close> is called is the enterprise
  one exactly when the enterprise flag is set. (The supplied parameters are an object,
  so their keys are distinct.)
\<close>

theorem render_params_merge:
  assumes "distinct (map fst (supplied_parameters c))"
  shows "get_prop (render_params c) k =
           (case map_of (supplied_parameters c) k of
              Some v \<Rightarrow> v
            | None \<Rightarrow> get_prop [(''badge'', JStr ''inline''), (''size'', JStr ''invisible''),
                                 (''sitekey'', JStr (reCaptchaKey c))] k)
         \<and> (window_grecaptcha s = Some g
              \<and> (if useEnterprise c then enterprise g = Some ns else standard g = ns)
              \<and> ns_render ns = Some r
            \<longrightarrow> render_log (onLoadCallback c s)
                  = render_log s @ [(container_element c, render_params c)]
                \<and> (\<forall>i. r (container_element c) (render_params c) = Inr i
                      \<longrightarrow> clientId (onLoadCallback c s) = i))"
  using assms
  by (auto simp: render_params_def get_prop_spread default_params_def select_namespace_def
      onLoadCallback_def Let_def throw_def split: sum.splits)

text \<open>
  Scenario B: the supplied badge replaces the default, the other two defaults stay; with
  an engine that has both namespaces, the handle comes from the enterprise \<^verbatim>\<open>render\<close>
  with the flag and from the standard one without.
\<close>

theorem render_params_merge_witness:
  "distinct (map fst (supplied_parameters scenario_B))
   \<and> distinct (map fst (supplied_parameters scenario_B_enterprise))
   \<and> get_prop (render_params scenario_B) ''badge'' = JStr ''bottomleft''
   \<and> get_prop (render_params scenario_B) ''size'' = JStr ''invisible''
   \<and> get_prop (render_params scenario_B) ''sitekey'' = JStr ''abc''
   \<and> clientId (onLoadCallback scenario_B
        ((mount scenario_B)\<lparr>window_grecaptcha := Some dual_engine\<rparr>)) = IdNum 7
   \<and> clientId (onLoadCallback scenario_B_enterprise
        ((mount scenario_B_enterprise)\<lparr>window_grecaptcha := Some dual_engine\<rparr>)) = IdNum 8"
proof -
  have d: "distinct (map fst (supplied_parameters scenario_B))"
    and d': "distinct (map fst (supplied_parameters scenario_B_enterprise))"
    by (simp_all add: supplied_parameters_def container_parameters_def scenario_B_def
        scenario_B_enterprise_def)
  have m: "map_of (supplied_parameters scenario_B) ''badge'' = Some (JStr ''bottomleft'')"
      "map_of (supplied_parameters scenario_B) ''size'' = None"
      "map_of (supplied_parameters scenario_B) ''sitekey'' = None"
    by (simp_all add: supplied_parameters_def container_parameters_def scenario_B_def)
  have k: "reCaptchaKey scenario_B = ''abc''" "useEnterprise scenario_B = False"
      "useEnterprise scenario_B_enterprise = True"
    by (simp_all add: scenario_B_def scenario_B_enterprise_def)
  have e: "standard dual_engine = demo_namespace"
      "enterprise dual_engine
         = Some (demo_namespace\<lparr>ns_render := Some (\<lambda>el params. Inr (IdNum 8))\<rparr>)"
      "ns_render demo_namespace = Some (\<lambda>el params. Inr (IdNum 7))"
    by (simp_all add: dual_engine_def demo_namespace_def)
  show ?thesis
    using d d'
      render_params_merge [OF d, of "''badge''"
        "(mount scenario_B)\<lparr>window_grecaptcha := Some dual_engine\<rparr>" dual_engine
        demo_namespace "\<lambda>el params. Inr (IdNum 7)"]
      render_params_merge [OF d, of "''size''"
        "(mount scenario_B)\<lparr>window_grecaptcha := Some dual_engine\<rparr>" dual_engine
        demo_namespace "\<lambda>el params. Inr (IdNum 7)"]
      render_params_merge [OF d, of "''sitekey''"
        "(mount scenario_B)\<lparr>window_grecaptcha := Some dual_engine\<rparr>" dual_engine
        demo_namespace "\<lambda>el params. Inr (IdNum 7)"]
      render_params_merge [OF d', of "''badge''"
        "(mount scenario_B_enterprise)\<lparr>window_grecaptcha := Some dual_engine\<rparr>" dual_engine
        "demo_namespace\<lparr>ns_render := Some (\<lambda>el params. Inr (IdNum 8))\<rparr>"
        "\<lambda>el params. Inr (IdNum 8)"]
    by (simp add: m k e get_prop_def)
qed

section \<open>The deferred value and the state machine\<close>

lemmas helper_defs = logWarningMessage_def resolve_def injectGoogleReCaptchaScript_def
  cleanGoogleRecaptcha_def throw_def

lemma run_append: "run (xs @ ys) s = run ys (run xs s)"
  by (induction xs arbitrary: s) simp_all

lemma promise_flush [simp]: "promise (flush s) = promise s"
  by (simp add: flush_def split: deferred.splits)

lemma promise_onLoadCallback [simp]: "promise (onLoadCallback c s) = promise s"
  by (simp add: onLoadCallback_def throw_def Let_def split: option.splits sum.splits)

lemma promise_invoke_global [simp]: "promise (invoke_global name s) = promise s"
  by (simp add: invoke_global_def throw_def split: option.splits)

lemma promise_run_cleanup [simp]: "promise (run_cleanup s) = promise s"
  by (simp add: run_cleanup_def cleanGoogleRecaptcha_def split: option.splits prod.splits)

lemma promise_effect_settled:
  "promise s \<noteq> Pending \<Longrightarrow> promise (effect c s) = promise s"
  by (simp add: effect_def helper_defs Let_def split: deferred.splits)

lemma promise_handler_settled:
  "promise s \<noteq> Pending \<Longrightarrow> promise (run_handler h s) = promise s"
  by (cases h)
     (simp_all add: onLoad_def onError_def helper_defs split: option.splits deferred.splits)

lemma promise_engine_ready_settled:
  "promise s \<noteq> Pending \<Longrightarrow> promise (engine_ready s) = promise s"
  by (simp add: engine_ready_def helper_defs split: list.splits deferred.splits)

lemma step_keeps_settled:
  "promise s \<noteq> Pending \<Longrightarrow> promise (step e s) = promise s"
  by (cases e)
     (simp_all add: rerender_def unmount_def promise_effect_settled promise_handler_settled
        promise_engine_ready_settled)

lemma run_keeps_settled:
  "promise s \<noteq> Pending \<Longrightarrow> promise (run es s) = promise s"
  by (induction es arbitrary: s) (simp_all add: step_keeps_settled)

lemma executeRecaptcha_null:
  "promise s = Fulfilled None \<Longrightarrow> executeRecaptcha s action = Rejected not_loaded"
  by (simp add: executeRecaptcha_def resume_def)

lemma executeRecaptcha_engine:
  "promise s = Fulfilled (Some ns) \<Longrightarrow> ns_execute ns = Some exec \<Longrightarrow>
   executeRecaptcha s action = awaited (exec (clientId s) action)"
  by (simp add: executeRecaptcha_def resume_def)

text \<open>What the calls of the global callback and of \<^verbatim>\<open>executeRecaptcha\<close> leave alone.\<close>

lemma flush_frame [simp]:
  "ready_callbacks (flush s) = ready_callbacks s"
  "window_grecaptcha (flush s) = window_grecaptcha s"
  "document (flush s) = document s"
  "console (flush s) = console s"
  "clientId (flush s) = clientId s"
  "cleanupFn (flush s) = cleanupFn s"
  "lifecycle_log (flush s) = lifecycle_log s"
  "window_slots (flush s) = window_slots s"
  "uncaught (flush s) = uncaught s"
  "mounted (flush s) = mounted s"
  "lastDeps (flush s) = lastDeps s"
  "render_log (flush s) = render_log s"
  by (simp_all add: flush_def split: deferred.splits)

lemma invoke_global_frame [simp]:
  "ready_callbacks (invoke_global name s) = ready_callbacks s"
  "window_grecaptcha (invoke_global name s) = window_grecaptcha s"
  "document (invoke_global name s) = document s"
  "console (invoke_global name s) = console s"
  "cleanupFn (invoke_global name s) = cleanupFn s"
  "lifecycle_log (invoke_global name s) = lifecycle_log s"
  "window_slots (invoke_global name s) = window_slots s"
  "mounted (invoke_global name s) = mounted s"
  "lastDeps (invoke_global name s) = lastDeps s"
  "waiting (invoke_global name s) = waiting s"
  "settled_calls (invoke_global name s) = settled_calls s"
  by (simp_all add: invoke_global_def onLoadCallback_def throw_def Let_def
      split: option.splits sum.splits)

lemma quiet_step_frame:
  assumes "quiet e"
  shows "promise (step e s) = promise s"
    and "ready_callbacks (step e s) = ready_callbacks s"
    and "window_grecaptcha (step e s) = window_grecaptcha s"
  using assms by (cases e; simp)+

lemma quiet_run_frame:
  assumes "\<forall>e\<in>set es. quiet e"
  shows "promise (run es s) = promise s \<and> ready_callbacks (run es s) = ready_callbacks s
         \<and> window_grecaptcha (run es s) = window_grecaptcha s"
  using assms by (induction es arbitrary: s) (simp_all add: quiet_step_frame)

lemma mount_with_key:
  assumes "reCaptchaKey c \<noteq> []"
  shows "promise (mount c) = Pending"
    and "ready_callbacks (mount c) = []"
    and "tag_onload (last (document (mount c))) = OnLoad (useEnterprise c)"
    and "tag_onerror (last (document (mount c))) = OnError"
    and "clientId (mount c) = IdStr (reCaptchaKey c)"
    and "cleanupFn (mount c) = Some (script_id c, container_element c)"
    and "window_slots (mount c) (onLoadCallbackName c) = Some c"
  using assms
  by (simp_all add: mount_def effect_def initial_state_def promiseWithResolvers_def
      injectGoogleReCaptchaScript_def Let_def)

lemma onLoad_registers:
  assumes "window_grecaptcha s = Some g" "select_namespace ue g = Some ns" "ns_ready ns"
  shows "onLoad ue s = s\<lparr>ready_callbacks := ready_callbacks s @ [ns]\<rparr>"
  using assms by (simp add: onLoad_def)

lemma handler_frame [simp]:
  "document (run_handler h s) = document s"
  "cleanupFn (run_handler h s) = cleanupFn s"
  "lifecycle_log (run_handler h s) = lifecycle_log s"
  "waiting (run_handler h s) = waiting s"
  "settled_calls (run_handler h s) = settled_calls s"
  "window_slots (run_handler h s) = window_slots s"
  "clientId (run_handler h s) = clientId s"
  by (cases h; simp add: onLoad_def onError_def helper_defs split: option.splits deferred.splits)+

lemma engine_ready_frame [simp]:
  "document (engine_ready s) = document s"
  "cleanupFn (engine_ready s) = cleanupFn s"
  "lifecycle_log (engine_ready s) = lifecycle_log s"
  "waiting (engine_ready s) = waiting s"
  "settled_calls (engine_ready s) = settled_calls s"
  "window_slots (engine_ready s) = window_slots s"
  "clientId (engine_ready s) = clientId s"
  "console (engine_ready s) = console s"
  by (simp_all add: engine_ready_def helper_defs split: list.splits deferred.splits)

lemma run_cleanup_frame [simp]:
  "waiting (run_cleanup s) = waiting s"
  "settled_calls (run_cleanup s) = settled_calls s"
  "window_slots (run_cleanup s) = window_slots s"
  "clientId (run_cleanup s) = clientId s"
  "console (run_cleanup s) = console s"
  "mounted (run_cleanup s) = mounted s"
  by (simp_all add: run_cleanup_def cleanGoogleRecaptcha_def split: option.splits prod.splits)

lemma effect_frame [simp]:
  "waiting (effect c s) = waiting s"
  "settled_calls (effect c s) = settled_calls s"
  "clientId (effect c s) = clientId s"
  "mounted (effect c s) = mounted s"
  by (simp_all add: effect_def helper_defs Let_def split: deferred.splits)

lemma rerender_frame [simp]:
  "waiting (rerender c s) = waiting s"
  "settled_calls (rerender c s) = settled_calls s"
  "clientId (rerender c s) = clientId s"
  by (simp_all add: rerender_def)

lemma unmount_frame [simp]:
  "waiting (unmount s) = waiting s"
  "settled_calls (unmount s) = settled_calls s"
  "clientId (unmount s) = clientId s"
  "window_slots (unmount s) = window_slots s"
  "console (unmount s) = console s"
  by (simp_all add: unmount_def)

lemma waiting_flush: "promise s \<noteq> Pending \<Longrightarrow> waiting (flush s) = []"
  by (simp add: flush_def split: deferred.splits)

lemma step_idle:
  "promise s \<noteq> Pending \<Longrightarrow> waiting s = [] \<Longrightarrow> waiting (step e s) = []"
  by (cases e) (simp_all add: flush_def split: deferred.splits)

lemma run_idle:
  "promise s \<noteq> Pending \<Longrightarrow> waiting s = [] \<Longrightarrow> waiting (run es s) = []"
  by (induction es arbitrary: s) (simp_all add: step_idle step_keeps_settled)

lemma effect_tag:
  "reCaptchaKey c \<noteq> [] \<Longrightarrow>
   tag_onload (last (document (effect c s))) = OnLoad (useEnterprise c)"
  by (simp add: effect_def injectGoogleReCaptchaScript_def Let_def)

lemma effect_run_tag:
  assumes "reCaptchaKey c \<noteq> []"
    and "s1 = mount c
         \<or> (mounted s0 \<and> lastDeps s0 \<noteq> Some (deps_of c) \<and> s1 = step (Rerender c) s0)"
  shows "tag_onload (last (document s1)) = OnLoad (useEnterprise c)"
  using assms by (auto simp: mount_def rerender_def effect_tag)

text \<open>
  Claim C2, amended. Let the effect run for a configuration with a non-empty site key, at
  the mount or after a change of a dependency, and let any events follow. When the load
  handler of the tag it injected fires while the engine object is present and the
  selected namespace offers \<^verbatim>\<open>ready\<close>, the continuation for that namespace is handed to
  the engine. When the engine calls it while the deferred value is still pending, that
  is, nothing resolved the value earlier in the same mount, and the namespace has
  \<^verbatim>\<open>execute\<close>, then after any further events \<^verbatim>\<open>executeRecaptcha(action)\<close> is exactly what
  \<^verbatim>\<open>execute\<close> returns for the current widget identifier and the action (a rejection
  with the error, should \<^verbatim>\<open>execute\<close> throw).
\<close>

theorem executeRecaptcha_after_ready:
  assumes key: "reCaptchaKey c \<noteq> []"
    and eff: "s1 = mount c
              \<or> (mounted s0 \<and> lastDeps s0 \<noteq> Some (deps_of c) \<and> s1 = step (Rerender c) s0)"
    and eng: "window_grecaptcha (run pre s1) = Some g"
    and ns: "select_namespace (useEnterprise c) g = Some ns" "ns_ready ns"
    and pend: "promise (run (pre @ ScriptLoad (last (document s1)) # mid) s1) = Pending"
    and head: "ready_callbacks (run (pre @ ScriptLoad (last (document s1)) # mid) s1)
               = ns # rest"
    and exec: "ns_execute ns = Some exec"
  shows "ready_callbacks (run (pre @ [ScriptLoad (last (document s1))]) s1)
           = ready_callbacks (run pre s1) @ [ns]
         \<and> (let s = run (pre @ ScriptLoad (last (document s1)) # mid @ EngineReady # es) s1
            in promise s = Fulfilled (Some ns)
               \<and> executeRecaptcha s action = awaited (exec (clientId s) action)
               \<and> settled_calls (step (Execute action) s)
                   = settled_calls s @ [(action, awaited (exec (clientId s) action))])"
proof -
  define s3 where "s3 = run (pre @ ScriptLoad (last (document s1)) # mid) s1"
  define s4 where "s4 = step EngineReady s3"
  have tag: "tag_onload (last (document s1)) = OnLoad (useEnterprise c)"
    using key eff by (rule effect_run_tag)
  have registered: "ready_callbacks (run (pre @ [ScriptLoad (last (document s1))]) s1)
           = ready_callbacks (run pre s1) @ [ns]"
    using eng ns by (simp add: run_append tag onLoad_registers)
  have s4: "promise s4 = Fulfilled (Some ns)"
    using pend head by (simp add: s4_def s3_def engine_ready_def resolve_def)
  have "waiting s4 = []"
    using s4 by (simp add: s4_def waiting_flush)
  then have idle: "waiting (run es s4) = []"
    using s4 by (simp add: run_idle)
  have "pre @ ScriptLoad (last (document s1)) # mid @ EngineReady # es
        = (pre @ ScriptLoad (last (document s1)) # mid) @ EngineReady # es"
    by simp
  then have run: "run (pre @ ScriptLoad (last (document s1)) # mid @ EngineReady # es) s1
             = run es s4"
    by (simp only: run_append s3_def s4_def run.simps)
  have "promise (run es s4) = Fulfilled (Some ns)"
    using s4 by (simp add: run_keeps_settled)
  then show ?thesis
    unfolding Let_def run using exec idle registered
    by (simp add: executeRecaptcha_engine flush_def)
qed








lemma step_promise_cases:
  "promise (step e s) = promise s
   \<or> (promise s = Pending \<and> (\<exists>v. promise (step e s) = Fulfilled v))"
proof (cases "promise s = Pending")
  case False
  then show ?thesis by (simp add: step_keeps_settled)
next
  case True
  then show ?thesis
  proof (cases e)
    case (Rerender c)
    then show ?thesis using True
      by (simp add: rerender_def effect_def helper_defs Let_def)
  next
    case (ScriptLoad t)
    then show ?thesis using True
      by (cases "tag_onload t")
         (simp_all add: onLoad_def onError_def helper_defs split: option.splits)
  next
    case (ScriptError t)
    then show ?thesis using True
      by (cases "tag_onerror t")
         (simp_all add: onLoad_def onError_def helper_defs split: option.splits)
  next
    case EngineReady
    then show ?thesis using True
      by (simp add: engine_ready_def helper_defs split: list.splits)
  qed (simp_all add: unmount_def)
qed

lemma step_not_broken:
  "\<forall>x. promise s \<noteq> Broken x \<Longrightarrow> \<forall>x. promise (step e s) \<noteq> Broken x"
  using step_promise_cases [of e s] by auto

lemma run_not_broken:
  "\<forall>x. promise s \<noteq> Broken x \<Longrightarrow> \<forall>x. promise (run es s) \<noteq> Broken x"
proof (induction es arbitrary: s)
  case Nil
  then show ?case by simp
next
  case (Cons e es)
  from Cons.prems have "\<forall>x. promise (step e s) \<noteq> Broken x"
    by (rule step_not_broken)
  then show ?case using Cons.IH by simp
qed

text \<open>
  Claim C4, amended. When the error handler of a script tag fires, or its load handler
  fires and \<^verbatim>\<open>window.grecaptcha\<close> is absent, exactly one warning is logged, nothing is
  thrown, and the deferred value is not rejected, then or later. If the value is still
  pending, it is resolved to null, stays null whatever happens next, and every later
  call of \<^verbatim>\<open>executeRecaptcha\<close> is rejected with the "not loaded" error. If the value was
  resolved earlier in the same mount, the resolution to null is a no-op: the value stays
  what it was, and \<^verbatim>\<open>executeRecaptcha\<close> goes on with it, so after an engine got ready the
  failure of a later script is not seen by the callers.
\<close>

theorem load_failure_resolves_null:
  assumes "(e = ScriptError t \<and> tag_onerror t = OnError
            \<and> msg = ''Error loading google recaptcha script'')
         \<or> (e = ScriptLoad t \<and> tag_onload t = OnLoad ue \<and> window_grecaptcha s = None
            \<and> msg = ''<GoogleRecaptchaProvider /> Recaptcha script is not available'')"
  shows "console (step e s) = console s @ [msg]
         \<and> uncaught (step e s) = uncaught s
         \<and> ((\<forall>x. promise s \<noteq> Broken x) \<longrightarrow>
              (\<forall>x. promise (run es (step e s)) \<noteq> Broken x))
         \<and> (promise s = Pending \<longrightarrow>
              promise (step e s) = Fulfilled None
              \<and> promise (run es (step e s)) = Fulfilled None
              \<and> executeRecaptcha (run es (step e s)) action = Rejected not_loaded)
         \<and> (promise s = Fulfilled v \<longrightarrow>
              promise (step e s) = Fulfilled v
              \<and> promise (run es (step e s)) = Fulfilled v
              \<and> executeRecaptcha (run es (step e s)) action
                  = resume v (clientId (run es (step e s))) action)"
proof -
  have now: "console (step e s) = console s @ [msg] \<and> uncaught (step e s) = uncaught s"
    using assms by (auto simp: onError_def onLoad_def helper_defs split: deferred.splits)
  have never: "(\<forall>x. promise s \<noteq> Broken x) \<longrightarrow>
              (\<forall>x. promise (run es (step e s)) \<noteq> Broken x)"
    using run_not_broken [of "step e s" es] step_not_broken [of s e] by blast
  have pending: "promise s = Pending \<longrightarrow>
              promise (step e s) = Fulfilled None
              \<and> promise (run es (step e s)) = Fulfilled None
              \<and> executeRecaptcha (run es (step e s)) action = Rejected not_loaded"
  proof
    assume "promise s = Pending"
    then have "promise (step e s) = Fulfilled None"
      using assms by (auto simp: onError_def onLoad_def helper_defs)
    moreover from this have "promise (run es (step e s)) = Fulfilled None"
      by (simp add: run_keeps_settled)
    ultimately show "promise (step e s) = Fulfilled None
              \<and> promise (run es (step e s)) = Fulfilled None
              \<and> executeRecaptcha (run es (step e s)) action = Rejected not_loaded"
      by (simp add: executeRecaptcha_null)
  qed
  have settled: "promise s = Fulfilled v \<longrightarrow>
              promise (step e s) = Fulfilled v
              \<and> promise (run es (step e s)) = Fulfilled v
              \<and> executeRecaptcha (run es (step e s)) action
                  = resume v (clientId (run es (step e s))) action"
  proof
    assume v: "promise s = Fulfilled v"
    then have "promise (step e s) = Fulfilled v"
      by (simp add: step_keeps_settled)
    moreover from this have "promise (run es (step e s)) = Fulfilled v"
      by (simp add: run_keeps_settled)
    ultimately show "promise (step e s) = Fulfilled v
              \<and> promise (run es (step e s)) = Fulfilled v
              \<and> executeRecaptcha (run es (step e s)) action
                  = resume v (clientId (run es (step e s))) action"
      by (simp add: executeRecaptcha_def)
  qed
  from now never pending settled show ?thesis by blast
qed

lemma promise_rerender:
  "promise (rerender c s) = promise s
   \<or> promise s = Pending \<and> promise (rerender c s) = Fulfilled None"
  by (simp add: rerender_def effect_def helper_defs Let_def split: deferred.splits)

text \<open>
  Claim C7. The deferred value lives in a ref of the mounted provider: running the
  effect again after a change of configuration never replaces it (at most it resolves
  a pending one to null). Once it is resolved, every later resolution is a no-op,
  whatever events follow, and every later \<^verbatim>\<open>executeRecaptcha\<close> continues with that first
  value: after a resolution to null it is rejected with the "not loaded" error, also
  after a reconfiguration to a key whose script loads and whose engine becomes ready.
\<close>
theorem deferred_value_created_once:
  "(promise (rerender c s) = promise s
      \<or> promise s = Pending \<and> promise (rerender c s) = Fulfilled None)
   \<and> (promise s \<noteq> Pending \<longrightarrow>
        resolve v s = s \<and> promise (run es s) = promise s)
   \<and> (promise s = Fulfilled w \<longrightarrow>
        executeRecaptcha (run es s) action = resume w (clientId (run es s)) action)
   \<and> (promise s = Fulfilled None \<longrightarrow>
        executeRecaptcha (run es s) action = Rejected not_loaded)"
proof -
  have "promise s \<noteq> Pending \<longrightarrow> resolve v s = s"
    by (simp add: resolve_def split: deferred.splits)
  moreover have "promise s = Fulfilled w \<longrightarrow>
      executeRecaptcha (run es s) action = resume w (clientId (run es s)) action"
    using run_keeps_settled [of s es] by (simp add: executeRecaptcha_def)
  moreover have "promise s = Fulfilled None \<longrightarrow>
      executeRecaptcha (run es s) action = Rejected not_loaded"
    using run_keeps_settled [of s es] by (simp add: executeRecaptcha_null)
  ultimately show ?thesis
    using promise_rerender [of c s] run_keeps_settled [of s es] by blast
qed

text \<open>
  Claim C8. The deferred value is resolved at most once: a resolution of a settled value
  changes nothing, and no event changes a settled value. A pending value is resolved by
  whichever resolver runs first: the missing-key check and the error handler to null,
  the load handler to null when the engine is absent, the ready continuation to the
  engine. All calls of \<^verbatim>\<open>executeRecaptcha\<close> suspended until then continue together with
  that one value, and none is left waiting.
\<close>
theorem resolved_once_for_all_waiters:
  "(promise s \<noteq> Pending \<longrightarrow> resolve v s = s \<and> promise (run es s) = promise s)
   \<and> (promise s = Pending \<longrightarrow>
        (reCaptchaKey c = [] \<longrightarrow> promise (effect c s) = Fulfilled None)
        \<and> promise (onError s) = Fulfilled None
        \<and> (window_grecaptcha s = None \<longrightarrow> promise (onLoad ue s) = Fulfilled None)
        \<and> (ready_callbacks s = ns # rest \<longrightarrow>
             promise (engine_ready s) = Fulfilled (Some ns))
        \<and> (promise (step e s) = Fulfilled w \<longrightarrow>
             waiting (step e s) = []
             \<and> settled_calls (step e s)
               = settled_calls s
                 @ map (\<lambda>a. (a, resume w (clientId (step e s)) a)) (waiting s)))"
proof -
  have settled: "promise s \<noteq> Pending \<longrightarrow> resolve v s = s \<and> promise (run es s) = promise s"
    by (simp add: run_keeps_settled resolve_def split: deferred.splits)
  have resolvers: "promise s = Pending \<longrightarrow>
        (reCaptchaKey c = [] \<longrightarrow> promise (effect c s) = Fulfilled None)
        \<and> promise (onError s) = Fulfilled None
        \<and> (window_grecaptcha s = None \<longrightarrow> promise (onLoad ue s) = Fulfilled None)
        \<and> (ready_callbacks s = ns # rest \<longrightarrow>
             promise (engine_ready s) = Fulfilled (Some ns))"
    by (simp add: effect_def onError_def onLoad_def engine_ready_def helper_defs)
  have waiters: "promise s = Pending \<longrightarrow> promise (step e s) = Fulfilled w \<longrightarrow>
             waiting (step e s) = []
             \<and> settled_calls (step e s)
               = settled_calls s
                 @ map (\<lambda>a. (a, resume w (clientId (step e s)) a)) (waiting s)"
    by (cases e) (auto simp: flush_def executeRecaptcha_def split: deferred.splits)
  from settled resolvers waiters show ?thesis by blast
qed

lemma step_clientId:
  "\<not> is_global_callback e \<Longrightarrow> clientId (step e s) = clientId s"
  by (cases e) simp_all

lemma run_clientId:
  "\<forall>e\<in>set es. \<not> is_global_callback e \<Longrightarrow> clientId (run es s) = clientId s"
  by (induction es arbitrary: s) (simp_all add: step_clientId)

lemma clientId_mount: "clientId (mount c) = IdStr (reCaptchaKey c)"
  by (simp add: mount_def initial_state_def)

text \<open>
  Claim C1, amended. Whenever the global callback fires and the selected engine
  namespace offers \<^verbatim>\<open>render\<close>, it makes one \<^verbatim>\<open>render\<close> call with \<^verbatim>\<open>container?.element\<close>
  (\<^verbatim>\<open>undefined\<close> in implicit mode) and the merged parameters, whether or not a mount
  element is configured, and stores the handle \<^verbatim>\<open>render\<close> returns in the identifier
  cell (the cell is unchanged when \<^verbatim>\<open>render\<close> throws). The cell starts as the site key
  and no other event writes it. \<^verbatim>\<open>executeRecaptcha\<close> passes the current content of the
  cell to the engine's \<^verbatim>\<open>execute\<close>.
\<close>
theorem global_callback_always_renders:
  assumes "window_slots s name = Some c" and "window_grecaptcha s = Some g"
    and "select_namespace (useEnterprise c) g = Some ns" and "ns_render ns = Some r"
  shows "render_log (step (GlobalCallback name) s)
           = render_log s @ [(container_element c, render_params c)]
         \<and> (r (container_element c) (render_params c) = Inr i \<longrightarrow>
              clientId (step (GlobalCallback name) s) = i)
         \<and> (r (container_element c) (render_params c) = Inl err \<longrightarrow>
              clientId (step (GlobalCallback name) s) = clientId s)
         \<and> clientId (mount c) = IdStr (reCaptchaKey c)
         \<and> ((\<forall>e\<in>set es. \<not> is_global_callback e) \<longrightarrow> clientId (run es s) = clientId s)
         \<and> (promise s = Fulfilled (Some ns') \<and> ns_execute ns' = Some exec \<longrightarrow>
              executeRecaptcha s action = awaited (exec (clientId s) action))"
proof -
  have "render_log (step (GlobalCallback name) s)
           = render_log s @ [(container_element c, render_params c)]
         \<and> (r (container_element c) (render_params c) = Inr i \<longrightarrow>
              clientId (step (GlobalCallback name) s) = i)
         \<and> (r (container_element c) (render_params c) = Inl err \<longrightarrow>
              clientId (step (GlobalCallback name) s) = clientId s)"
    using assms
    by (auto simp: invoke_global_def onLoadCallback_def Let_def throw_def split: sum.splits)
  then show ?thesis
    by (auto simp: clientId_mount run_clientId executeRecaptcha_engine)
qed

lemma json_members_filter:
  "json_members (filter serialisable obj) = json_members obj"
  by (induction obj) (auto simp: serialisable_def split: option.splits)

lemma same_serialisable_same_json:
  "map_option (filter serialisable) a = map_option (filter serialisable) b \<Longrightarrow>
   JSON_stringify a = JSON_stringify b"
proof (cases a; cases b)
  fix x y
  assume "a = Some x" "b = Some y"
    and "map_option (filter serialisable) a = map_option (filter serialisable) b"
  then have "json_members (filter serialisable x) = json_members (filter serialisable y)"
    by simp
  then show ?thesis
    using \<open>a = Some x\<close> \<open>b = Some y\<close> by (simp add: JSON_stringify_def json_members_filter)
qed (simp_all add: JSON_stringify_def)

lemma run_cleanup_teardown:
  assumes "cleanupFn s = Some (sid, el)"
  shows "document (run_cleanup s) = filter (\<lambda>t. tag_id t \<noteq> sid) (document s)"
    and "lifecycle_log (run_cleanup s) = lifecycle_log s @ [Teardown sid]"
    and "cleanupFn (run_cleanup s) = None"
  using assms by (simp_all add: run_cleanup_def cleanGoogleRecaptcha_def)

lemma run_cleanup_none: "cleanupFn s = None \<Longrightarrow> run_cleanup s = s"
  by (simp add: run_cleanup_def)

lemma effect_lifecycle:
  "lifecycle_log (effect c s)
     = lifecycle_log s @ (if reCaptchaKey c = [] then [] else [Injection (script_id c)])"
  by (simp add: effect_def helper_defs script_id_def Let_def split: deferred.splits)

section \<open>Teardown and restart\<close>

text \<open>
  Claim C5, amended. On every teardown of a provider that injected a script (unmount, or
  a render with a changed dependency) the cleanup removes the script tag with the
  configured id from the document and, in explicit mode, the artifacts of the widget
  rendered on the mount element, and it leaves the global callback slots as they are:
  the cleanup is given the script id and the mount element only, so the callback
  registered under the configured name stays in its slot until a later effect overwrites
  it.
\<close>

theorem teardown_removes_script_keeps_callback:
  assumes "mounted s" and "cleanupFn s = Some (sid, el)"
  shows "document (step Unmount s) = filter (\<lambda>t. tag_id t \<noteq> sid) (document s)
         \<and> widgets (step Unmount s)
           = (if element_truthy el then filter (\<lambda>w. Some w \<noteq> el) (widgets s)
              else widgets s)
         \<and> lifecycle_log (step Unmount s) = lifecycle_log s @ [Teardown sid]
         \<and> window_slots (step Unmount s) = window_slots s
         \<and> (lastDeps s \<noteq> Some (deps_of c') \<longrightarrow>
              lifecycle_log (step (Rerender c') s)
                = lifecycle_log s @ Teardown sid
                  # (if reCaptchaKey c' = [] then [] else [Injection (script_id c')])
              \<and> (if reCaptchaKey c' = [] then document (step (Rerender c') s)
                  else butlast (document (step (Rerender c') s)))
                = filter (\<lambda>t. tag_id t \<noteq> sid) (document s)
              \<and> widgets (step (Rerender c') s)
                = (if element_truthy el then filter (\<lambda>w. Some w \<noteq> el) (widgets s)
                   else widgets s)
              \<and> window_slots (step (Rerender c') s)
                = (if reCaptchaKey c' = [] then window_slots s
                   else (window_slots s)(onLoadCallbackName c' \<mapsto> c')))"
proof -
  have w: "widgets (flush s') = widgets s'" for s'
    by (simp add: flush_def split: deferred.splits)
  show ?thesis
    using assms
    by (auto simp: w run_cleanup_teardown run_cleanup_def cleanGoogleRecaptcha_def
        unmount_def rerender_def effect_def helper_defs Let_def script_id_def
        split: deferred.splits)
qed

text \<open>
  Claim C6, amended. A later render restarts exactly when one of the seven dependencies
  differs: the two flags, the language, the site key, the mount element, and the JSON
  texts of the script options and of the render parameters. Records with the same
  printed members in the same order never restart, so a change of a function-valued
  member (the three container callbacks) alone does not restart. A restart is one
  teardown, if the previous key was not empty, followed by one injection, if the new key
  is not empty.
\<close>
theorem restart_exactly_on_changed_deps:
  assumes "mounted s" and "lastDeps s = Some (deps_of c)"
    and "cleanupFn s = (if reCaptchaKey c = [] then None
                        else Some (script_id c, container_element c))"
  shows "(deps_of c' = deps_of c \<longrightarrow> rerender c' s = s)
         \<and> (deps_of c' \<noteq> deps_of c \<longrightarrow>
              lifecycle_log (rerender c' s)
                = lifecycle_log s
                  @ (if reCaptchaKey c = [] then [] else [Teardown (script_id c)])
                  @ (if reCaptchaKey c' = [] then [] else [Injection (script_id c')]))
         \<and> (deps_of c' = deps_of c \<longleftrightarrow>
              useEnterprise c' = useEnterprise c \<and> useRecaptchaNet c' = useRecaptchaNet c
              \<and> JSON_stringify (scriptProps c') = JSON_stringify (scriptProps c)
              \<and> JSON_stringify (container_parameters c')
                  = JSON_stringify (container_parameters c)
              \<and> language c' = language c \<and> reCaptchaKey c' = reCaptchaKey c
              \<and> container_element c' = container_element c)
         \<and> (map_option (filter serialisable) (scriptProps c')
               = map_option (filter serialisable) (scriptProps c)
             \<longrightarrow> JSON_stringify (scriptProps c') = JSON_stringify (scriptProps c))
         \<and> (map_option (filter serialisable) (container_parameters c')
               = map_option (filter serialisable) (container_parameters c)
             \<longrightarrow> JSON_stringify (container_parameters c')
                   = JSON_stringify (container_parameters c))"
proof -
  have same: "deps_of c' = deps_of c \<longrightarrow> rerender c' s = s"
    using assms by (simp add: rerender_def)
  have changed: "deps_of c' \<noteq> deps_of c \<longrightarrow>
              lifecycle_log (rerender c' s)
                = lifecycle_log s
                  @ (if reCaptchaKey c = [] then [] else [Teardown (script_id c)])
                  @ (if reCaptchaKey c' = [] then [] else [Injection (script_id c')])"
    using assms
    by (simp add: rerender_def effect_lifecycle run_cleanup_teardown run_cleanup_none)
  have deps: "deps_of c' = deps_of c \<longleftrightarrow>
              useEnterprise c' = useEnterprise c \<and> useRecaptchaNet c' = useRecaptchaNet c
              \<and> JSON_stringify (scriptProps c') = JSON_stringify (scriptProps c)
              \<and> JSON_stringify (container_parameters c')
                  = JSON_stringify (container_parameters c)
              \<and> language c' = language c \<and> reCaptchaKey c' = reCaptchaKey c
              \<and> container_element c' = container_element c"
    by (simp add: deps_of_def)
  from same changed deps show ?thesis
    using same_serialisable_same_json by blast
qed

section \<open>Misuse\<close>

text \<open>
  Claim C9. The \<^verbatim>\<open>executeRecaptcha\<close> of the default context value, the one a consumer gets
  outside any provider, throws a descriptive error at once instead of suspending. Inside
  a provider whose deferred value is null, or an engine handle without \<^verbatim>\<open>execute\<close>, the
  call is rejected with the "not loaded" error; it writes nothing to the console, and
  the calls suspended so far are rejected with it.
\<close>

theorem misuse_is_thrown_or_rejected:
  "default_executeRecaptcha action
     = Threw (Error ''GoogleReCaptcha Context has not yet been implemented, if you are using useGoogleReCaptcha hook, make sure the hook is called inside component wrapped by GoogleRecaptchaProvider'')
   \<and> default_executeRecaptcha action \<noteq> Suspended
   \<and> (promise s = Fulfilled None
        \<or> (\<exists>ns. promise s = Fulfilled (Some ns) \<and> ns_execute ns = None)
      \<longrightarrow> executeRecaptcha s action
            = Rejected (Error ''<GoogleReCaptchaProvider /> Google Recaptcha has not been loaded'')
          \<and> console (step (Execute action) s) = console s
          \<and> settled_calls (step (Execute action) s)
            = settled_calls s
              @ map (\<lambda>a. (a, Rejected (Error ''<GoogleReCaptchaProvider /> Google Recaptcha has not been loaded'')))
                  (waiting s @ [action]))"
  by (auto simp: default_executeRecaptcha_def executeRecaptcha_def resume_def not_loaded_def
      flush_def)

section \<open>Where the code differs from the claims\<close>

lemmas scenario_defs = scenario_A_def scenario_B_def scenario_B_callback_def
  scenario_B_reordered_def scenario_C_def scenario_A_fr_def demo_engine_def demo_namespace_def

lemmas eval_defs = mount_def effect_def initial_state_def promiseWithResolvers_def helper_defs
  Let_def container_element_def container_parameters_def onLoadCallbackName_def opt_prop_def
  get_prop_def str_or_def bool_or_def script_id_def deps_of_def JSON_stringify_def
  invoke_global_def onLoadCallback_def select_namespace_def render_params_def
  default_params_def supplied_parameters_def spread_def flush_def onLoad_def onError_def
  engine_ready_def executeRecaptcha_def resume_def unmount_def rerender_def run_cleanup_def

lemmas scenario_state_defs = scenario_A_failed_def scenario_A_reconfigured_def
  scenario_A_pending_def scenario_B_rendered_def

text \<open>
  Claim C2 fails in scenario A with the key \<^verbatim>\<open>abc\<close> throughout: the first script fails to
  load, the provider is rendered again with a language, the second script loads with the
  engine present and the engine gets ready; \<^verbatim>\<open>executeRecaptcha("login")\<close> is rejected.
\<close>

theorem ready_after_failure_still_rejected:
  "reCaptchaKey scenario_A_fr = ''abc''
   \<and> tag_onload (last (document scenario_A_failed)) = OnLoad False
   \<and> window_grecaptcha (run [ScriptRuns demo_engine] scenario_A_failed) = Some demo_engine
   \<and> ready_callbacks
        (run [ScriptRuns demo_engine, ScriptLoad (last (document scenario_A_failed))]
           scenario_A_failed) = [demo_namespace]
   \<and> ready_callbacks
        (run [ScriptRuns demo_engine, ScriptLoad (last (document scenario_A_failed)),
              EngineReady] scenario_A_failed) = []
   \<and> executeRecaptcha
        (run [ScriptRuns demo_engine, ScriptLoad (last (document scenario_A_failed)),
              EngineReady] scenario_A_failed) (Some ''login'')
       = Rejected (Error ''<GoogleReCaptchaProvider /> Google Recaptcha has not been loaded'')"
  by (simp add: scenario_A_failed_def eval_defs scenario_defs not_loaded_def)

text \<open>
  Claim C4 fails in scenario A after the engine got ready and the provider was rendered
  again with a language: the error handler of the new tag logs its warning, the deferred
  value stays the engine, and \<^verbatim>\<open>executeRecaptcha("login")\<close> resolves with a token.
\<close>

theorem late_load_error_goes_unnoticed:
  "promise scenario_A_reconfigured = Fulfilled (Some demo_namespace)
   \<and> tag_onerror (last (document scenario_A_reconfigured)) = OnError
   \<and> console (step (ScriptError (last (document scenario_A_reconfigured)))
        scenario_A_reconfigured)
       = console scenario_A_reconfigured @ [''Error loading google recaptcha script'']
   \<and> promise (step (ScriptError (last (document scenario_A_reconfigured)))
        scenario_A_reconfigured) = Fulfilled (Some demo_namespace)
   \<and> executeRecaptcha
        (step (ScriptError (last (document scenario_A_reconfigured))) scenario_A_reconfigured)
        (Some ''login'')
       = Resolved ''token for key abc''"
  by (simp add: scenario_A_reconfigured_def eval_defs scenario_defs)


text \<open>
  Claim C1 fails in scenario A (no container): the global callback fires, calls
  \<^verbatim>\<open>render\<close> with \<^verbatim>\<open>undefined\<close> as element, the identifier becomes the returned handle 7,
  and \<^verbatim>\<open>executeRecaptcha("login")\<close> passes the handle, not the site key, to \<^verbatim>\<open>execute\<close>.
\<close>
theorem implicit_mode_callback_renders:
  "container_element scenario_A = None
   \<and> render_log scenario_A_ready
       = [(None, [(''badge'', JStr ''inline''), (''size'', JStr ''invisible''),
                  (''sitekey'', JStr ''abc'')])]
   \<and> clientId scenario_A_ready = IdNum 7
   \<and> executeRecaptcha scenario_A_ready (Some ''login'') = Resolved ''token for widget''"
  by (simp add: scenario_A_ready_def scenario_A_def mount_def effect_def initial_state_def
      promiseWithResolvers_def helper_defs Let_def container_element_def onLoadCallbackName_def
      opt_prop_def str_or_def bool_or_def script_id_def deps_of_def JSON_stringify_def
      container_parameters_def invoke_global_def onLoadCallback_def demo_engine_def
      demo_namespace_def select_namespace_def render_params_def default_params_def
      supplied_parameters_def spread_def flush_def onLoad_def engine_ready_def
      executeRecaptcha_def resume_def)

text \<open>
  Claim C5 fails in scenario A: after the unmount, and after a reconfiguration to an
  empty key, the script tag is gone and the callback is still in its slot.
\<close>
theorem callback_slot_survives_teardown:
  "document (step Unmount (mount scenario_A)) = []
   \<and> window_slots (step Unmount (mount scenario_A)) ''onRecaptchaLoadCallback''
       = Some scenario_A
   \<and> document (step (Rerender scenario_C) (mount scenario_A)) = []
   \<and> window_slots (step (Rerender scenario_C) (mount scenario_A)) ''onRecaptchaLoadCallback''
       = Some scenario_A"
  by (simp add: scenario_A_def scenario_C_def mount_def effect_def initial_state_def
      promiseWithResolvers_def helper_defs Let_def container_element_def onLoadCallbackName_def
      opt_prop_def str_or_def bool_or_def script_id_def deps_of_def JSON_stringify_def
      container_parameters_def flush_def unmount_def rerender_def run_cleanup_def)

text \<open>
  Claim C6 fails in scenario B: a render with another \<^verbatim>\<open>callback\<close> among the container
  parameters causes neither teardown nor injection, and a render with the same script
  options written in another order causes both.
\<close>
theorem callback_change_or_reordering:
  "container_parameters scenario_B_callback \<noteq> container_parameters scenario_B
   \<and> lifecycle_log (mount scenario_B) = [Injection ''captcha'']
   \<and> lifecycle_log (step (Rerender scenario_B_callback) (mount scenario_B))
       = [Injection ''captcha'']
   \<and> map_option set (scriptProps scenario_B_reordered) = map_option set (scriptProps scenario_B)
   \<and> lifecycle_log (step (Rerender scenario_B_reordered) (mount scenario_B))
       = [Injection ''captcha'', Teardown ''captcha'', Injection ''captcha'']"
  by (simp add: scenario_B_def scenario_B_callback_def scenario_B_reordered_def
      mount_def effect_def initial_state_def
      promiseWithResolvers_def helper_defs Let_def container_element_def onLoadCallbackName_def
      opt_prop_def get_prop_def str_or_def bool_or_def script_id_def deps_of_def
      JSON_stringify_def
      container_parameters_def flush_def unmount_def rerender_def run_cleanup_def insert_commute)

section \<open>The statements at concrete inputs\<close>

text \<open>
  Scenario A, implicit mode: the callback renders against no element and stores the
  handle; without the callback the identifier stays the site key.
\<close>

theorem global_callback_always_renders_witness:
  "window_slots (step (ScriptRuns demo_engine) (mount scenario_A)) ''onRecaptchaLoadCallback''
     = Some scenario_A
   \<and> window_grecaptcha (step (ScriptRuns demo_engine) (mount scenario_A)) = Some demo_engine
   \<and> select_namespace (useEnterprise scenario_A) demo_engine = Some demo_namespace
   \<and> container_element scenario_A = None
   \<and> render_log (step (GlobalCallback ''onRecaptchaLoadCallback'')
        (step (ScriptRuns demo_engine) (mount scenario_A)))
       = [(None, render_params scenario_A)]
   \<and> clientId (step (GlobalCallback ''onRecaptchaLoadCallback'')
        (step (ScriptRuns demo_engine) (mount scenario_A))) = IdNum 7
   \<and> clientId (run [Execute None, EngineReady]
        (step (ScriptRuns demo_engine) (mount scenario_A))) = IdStr ''abc''"
proof -
  let ?s = "step (ScriptRuns demo_engine) (mount scenario_A)"
  have slot: "window_slots ?s ''onRecaptchaLoadCallback'' = Some scenario_A"
    by (simp add: eval_defs scenario_defs)
  have eng: "window_grecaptcha ?s = Some demo_engine"
    by simp
  have ns: "select_namespace (useEnterprise scenario_A) demo_engine = Some demo_namespace"
    by (simp add: select_namespace_def scenario_defs)
  have r: "ns_render demo_namespace = Some (\<lambda>el params. Inr (IdNum 7))"
    by (simp add: demo_namespace_def)
  have el: "container_element scenario_A = None"
    by (simp add: container_element_def scenario_A_def)
  have log: "render_log ?s = []" and cid: "clientId ?s = IdStr ''abc''"
    by (simp_all add: eval_defs scenario_defs)
  show ?thesis
    using global_callback_always_renders [OF slot eng ns r,
        of "IdNum 7" TypeError "[Execute None, EngineReady]" demo_namespace
           "\<lambda>i action. Suspended" None]
      slot ns el log cid
    by simp
qed

text \<open>
  Scenario A from the mount, with a call made before the engine is ready and a later
  reconfiguration; and scenario A rendered again with a language while still loading.
\<close>

theorem executeRecaptcha_after_ready_witness:
  "reCaptchaKey scenario_A = ''abc''
   \<and> select_namespace (useEnterprise scenario_A) demo_engine = Some demo_namespace
   \<and> ns_ready demo_namespace
   \<and> window_grecaptcha (run [ScriptRuns demo_engine, Execute (Some ''early'')]
        (mount scenario_A)) = Some demo_engine
   \<and> promise (run ([ScriptRuns demo_engine, Execute (Some ''early'')]
        @ ScriptLoad (last (document (mount scenario_A))) # []) (mount scenario_A)) = Pending
   \<and> ready_callbacks (run ([ScriptRuns demo_engine, Execute (Some ''early'')]
        @ ScriptLoad (last (document (mount scenario_A))) # []) (mount scenario_A))
       = [demo_namespace]
   \<and> executeRecaptcha
        (run ([ScriptRuns demo_engine, Execute (Some ''early'')]
              @ ScriptLoad (last (document (mount scenario_A))) # []
              @ EngineReady # [Rerender scenario_C])
           (mount scenario_A))
        (Some ''login'')
       = Resolved ''token for key abc''
   \<and> reCaptchaKey scenario_A_fr = ''abc''
   \<and> mounted (mount scenario_A)
   \<and> lastDeps (mount scenario_A) \<noteq> Some (deps_of scenario_A_fr)
   \<and> scenario_A_pending = step (Rerender scenario_A_fr) (mount scenario_A)
   \<and> promise (run ([ScriptRuns demo_engine]
        @ ScriptLoad (last (document scenario_A_pending)) # []) scenario_A_pending) = Pending
   \<and> ready_callbacks (run ([ScriptRuns demo_engine]
        @ ScriptLoad (last (document scenario_A_pending)) # []) scenario_A_pending)
       = [demo_namespace]
   \<and> executeRecaptcha
        (run ([ScriptRuns demo_engine]
              @ ScriptLoad (last (document scenario_A_pending)) # [] @ EngineReady # [])
           scenario_A_pending)
        (Some ''login'')
       = Resolved ''token for key abc''"
proof -
  let ?exec = "\<lambda>i action. Resolved (case i of IdStr k \<Rightarrow> ''token for key '' @ k
                                        | IdNum n \<Rightarrow> ''token for widget'')"
  let ?pre = "[ScriptRuns demo_engine, Execute (Some ''early'')]"
  let ?S = "run (?pre @ ScriptLoad (last (document (mount scenario_A))) # []
                 @ EngineReady # [Rerender scenario_C]) (mount scenario_A)"
  let ?T = "run ([ScriptRuns demo_engine]
                 @ ScriptLoad (last (document scenario_A_pending)) # [] @ EngineReady # [])
              scenario_A_pending"
  have key: "reCaptchaKey scenario_A \<noteq> []" "reCaptchaKey scenario_A_fr \<noteq> []"
    and keys: "reCaptchaKey scenario_A = ''abc''" "reCaptchaKey scenario_A_fr = ''abc''"
    by (simp_all add: scenario_defs)
  have ns: "select_namespace (useEnterprise scenario_A) demo_engine = Some demo_namespace"
    and ns': "select_namespace (useEnterprise scenario_A_fr) demo_engine = Some demo_namespace"
    by (simp_all add: select_namespace_def scenario_defs)
  have rdy: "ns_ready demo_namespace"
    and ex: "ns_execute demo_namespace = Some ?exec"
    by (simp_all add: demo_namespace_def)
  have eff: "mount scenario_A = mount scenario_A
             \<or> (mounted (mount scenario_A)
                \<and> lastDeps (mount scenario_A) \<noteq> Some (deps_of scenario_A)
                \<and> mount scenario_A = step (Rerender scenario_A) (mount scenario_A))"
    by simp
  have m: "mounted (mount scenario_A)"
    and d: "lastDeps (mount scenario_A) \<noteq> Some (deps_of scenario_A_fr)"
    by (simp_all add: eval_defs scenario_defs)
  have pdef: "scenario_A_pending = step (Rerender scenario_A_fr) (mount scenario_A)"
    by (simp only: scenario_A_pending_def)
  from m d pdef
  have eff': "scenario_A_pending = mount scenario_A_fr
              \<or> (mounted (mount scenario_A)
                 \<and> lastDeps (mount scenario_A) \<noteq> Some (deps_of scenario_A_fr)
                 \<and> scenario_A_pending = step (Rerender scenario_A_fr) (mount scenario_A))"
    by blast
  have eng: "window_grecaptcha (run ?pre (mount scenario_A)) = Some demo_engine"
    and pend: "promise (run (?pre @ ScriptLoad (last (document (mount scenario_A))) # [])
                 (mount scenario_A)) = Pending"
    and head: "ready_callbacks (run (?pre @ ScriptLoad (last (document (mount scenario_A))) # [])
                 (mount scenario_A)) = demo_namespace # []"
    by (simp_all add: eval_defs scenario_defs)
  have eng': "window_grecaptcha (run [ScriptRuns demo_engine] scenario_A_pending)
              = Some demo_engine"
    and pend': "promise (run ([ScriptRuns demo_engine]
                  @ ScriptLoad (last (document scenario_A_pending)) # []) scenario_A_pending)
                = Pending"
    and head': "ready_callbacks (run ([ScriptRuns demo_engine]
                  @ ScriptLoad (last (document scenario_A_pending)) # []) scenario_A_pending)
                = demo_namespace # []"
    by (simp_all add: scenario_A_pending_def eval_defs scenario_defs)
  have cid: "clientId ?S = IdStr ''abc''"
    by (simp add: run_clientId clientId_mount scenario_A_def)
  have cid': "clientId ?T = IdStr ''abc''"
    by (simp add: run_clientId clientId_mount scenario_A_pending_def scenario_A_def)
  have tok: "awaited (?exec (IdStr ''abc'') (Some ''login'')) = Resolved ''token for key abc''"
    by simp
  have "executeRecaptcha ?S (Some ''login'') = awaited (?exec (clientId ?S) (Some ''login''))"
    using executeRecaptcha_after_ready [OF key(1) eff eng ns rdy pend head ex,
        of "[Rerender scenario_C]" "Some ''login''"]
    unfolding Let_def by blast
  then have r: "executeRecaptcha ?S (Some ''login'') = Resolved ''token for key abc''"
    by (simp only: cid tok)
  have "executeRecaptcha ?T (Some ''login'') = awaited (?exec (clientId ?T) (Some ''login''))"
    using executeRecaptcha_after_ready [OF key(2) eff' eng' ns' rdy pend' head' ex,
        of "[]" "Some ''login''"]
    unfolding Let_def by blast
  then have r': "executeRecaptcha ?T (Some ''login'') = Resolved ''token for key abc''"
    by (simp only: cid' tok)
  from keys ns rdy eng pend head r m d pdef pend' head' r' show ?thesis
    by blast
qed


text \<open>
  Scenario A when the script fails and when it loads without defining the engine, both
  while the value is pending; and a script that fails after the engine got ready.
\<close>

theorem load_failure_resolves_null_witness:
  "promise (mount scenario_A) = Pending
   \<and> tag_onerror (last (document (mount scenario_A))) = OnError
   \<and> tag_onload (last (document (mount scenario_A))) = OnLoad False
   \<and> window_grecaptcha (mount scenario_A) = None
   \<and> console (step (ScriptError (last (document (mount scenario_A)))) (mount scenario_A))
       = console (mount scenario_A) @ [''Error loading google recaptcha script'']
   \<and> console (step (ScriptLoad (last (document (mount scenario_A)))) (mount scenario_A))
       = console (mount scenario_A)
         @ [''<GoogleRecaptchaProvider /> Recaptcha script is not available'']
   \<and> executeRecaptcha
        (run [ScriptRuns demo_engine]
           (step (ScriptError (last (document (mount scenario_A)))) (mount scenario_A)))
        (Some ''login'')
       = Rejected not_loaded
   \<and> executeRecaptcha
        (run [ScriptRuns demo_engine]
           (step (ScriptLoad (last (document (mount scenario_A)))) (mount scenario_A)))
        (Some ''login'')
       = Rejected not_loaded
   \<and> promise scenario_A_reconfigured = Fulfilled (Some demo_namespace)
   \<and> tag_onerror (last (document scenario_A_reconfigured)) = OnError
   \<and> promise (run [Unmount]
        (step (ScriptError (last (document scenario_A_reconfigured))) scenario_A_reconfigured))
       = Fulfilled (Some demo_namespace)"
proof -
  have key: "reCaptchaKey scenario_A \<noteq> []"
    by (simp add: scenario_A_def)
  have p: "promise (mount scenario_A) = Pending"
    and err: "tag_onerror (last (document (mount scenario_A))) = OnError"
    and load: "tag_onload (last (document (mount scenario_A))) = OnLoad False"
    using mount_with_key [OF key] by (simp_all add: scenario_A_def)
  have eng: "window_grecaptcha (mount scenario_A) = None"
    by (simp add: eval_defs scenario_defs)
  have p': "promise scenario_A_reconfigured = Fulfilled (Some demo_namespace)"
    and err': "tag_onerror (last (document scenario_A_reconfigured)) = OnError"
    by (simp_all add: scenario_A_reconfigured_def eval_defs scenario_defs)
  have a: "ScriptError (last (document (mount scenario_A)))
             = ScriptError (last (document (mount scenario_A)))
           \<and> tag_onerror (last (document (mount scenario_A))) = OnError
           \<and> ''Error loading google recaptcha script'' = ''Error loading google recaptcha script''
         \<or> ScriptError (last (document (mount scenario_A)))
             = ScriptLoad (last (document (mount scenario_A)))
           \<and> tag_onload (last (document (mount scenario_A))) = OnLoad False
           \<and> window_grecaptcha (mount scenario_A) = None
           \<and> ''Error loading google recaptcha script''
             = ''<GoogleRecaptchaProvider /> Recaptcha script is not available''"
    using err by blast
  have b: "ScriptLoad (last (document (mount scenario_A)))
             = ScriptError (last (document (mount scenario_A)))
           \<and> tag_onerror (last (document (mount scenario_A))) = OnError
           \<and> ''<GoogleRecaptchaProvider /> Recaptcha script is not available''
             = ''Error loading google recaptcha script''
         \<or> ScriptLoad (last (document (mount scenario_A)))
             = ScriptLoad (last (document (mount scenario_A)))
           \<and> tag_onload (last (document (mount scenario_A))) = OnLoad False
           \<and> window_grecaptcha (mount scenario_A) = None
           \<and> ''<GoogleRecaptchaProvider /> Recaptcha script is not available''
             = ''<GoogleRecaptchaProvider /> Recaptcha script is not available''"
    using load eng by blast
  have c: "ScriptError (last (document scenario_A_reconfigured))
             = ScriptError (last (document scenario_A_reconfigured))
           \<and> tag_onerror (last (document scenario_A_reconfigured)) = OnError
           \<and> ''Error loading google recaptcha script'' = ''Error loading google recaptcha script''
         \<or> ScriptError (last (document scenario_A_reconfigured))
             = ScriptLoad (last (document scenario_A_reconfigured))
           \<and> tag_onload (last (document scenario_A_reconfigured)) = OnLoad False
           \<and> window_grecaptcha scenario_A_reconfigured = None
           \<and> ''Error loading google recaptcha script''
             = ''<GoogleRecaptchaProvider /> Recaptcha script is not available''"
    using err' by blast
  note ta = load_failure_resolves_null [OF a, of "[ScriptRuns demo_engine]" "Some ''login''" None]
  note tb = load_failure_resolves_null [OF b, of "[ScriptRuns demo_engine]" "Some ''login''" None]
  note tc = load_failure_resolves_null [OF c, of "[Unmount]" "Some ''login''"
      "Some demo_namespace"]
  from ta p have ra: "console (step (ScriptError (last (document (mount scenario_A))))
                         (mount scenario_A))
       = console (mount scenario_A) @ [''Error loading google recaptcha script'']"
    "executeRecaptcha
        (run [ScriptRuns demo_engine]
           (step (ScriptError (last (document (mount scenario_A)))) (mount scenario_A)))
        (Some ''login'')
       = Rejected not_loaded"
    by blast+
  from tb p have rb: "console (step (ScriptLoad (last (document (mount scenario_A))))
                         (mount scenario_A))
       = console (mount scenario_A)
         @ [''<GoogleRecaptchaProvider /> Recaptcha script is not available'']"
    "executeRecaptcha
        (run [ScriptRuns demo_engine]
           (step (ScriptLoad (last (document (mount scenario_A)))) (mount scenario_A)))
        (Some ''login'')
       = Rejected not_loaded"
    by blast+
  from tc p' have rc: "promise (run [Unmount]
        (step (ScriptError (last (document scenario_A_reconfigured))) scenario_A_reconfigured))
       = Fulfilled (Some demo_namespace)"
    by blast
  from p err load eng ra rb p' err' rc show ?thesis
    by blast
qed

text \<open>
  Scenario B with its widget rendered on the mount element, unmounted and reconfigured to
  an empty key.
\<close>

theorem teardown_removes_script_keeps_callback_witness:
  "mounted scenario_B_rendered
   \<and> cleanupFn scenario_B_rendered = Some (''captcha'', Some (Selector ''#box''))
   \<and> map tag_id (document scenario_B_rendered) = [''captcha'']
   \<and> widgets scenario_B_rendered = [Selector ''#box'']
   \<and> document (step Unmount scenario_B_rendered) = []
   \<and> widgets (step Unmount scenario_B_rendered) = []
   \<and> lifecycle_log (step Unmount scenario_B_rendered)
       = [Injection ''captcha'', Teardown ''captcha'']
   \<and> window_slots (step Unmount scenario_B_rendered) ''onRecaptchaLoadCallback''
       = Some scenario_B
   \<and> lastDeps scenario_B_rendered \<noteq> Some (deps_of scenario_C)
   \<and> document (step (Rerender scenario_C) scenario_B_rendered) = []
   \<and> widgets (step (Rerender scenario_C) scenario_B_rendered) = []
   \<and> window_slots (step (Rerender scenario_C) scenario_B_rendered) ''onRecaptchaLoadCallback''
       = Some scenario_B"
proof -
  have m: "mounted scenario_B_rendered"
    and cl: "cleanupFn scenario_B_rendered = Some (''captcha'', Some (Selector ''#box''))"
    and doc: "map tag_id (document scenario_B_rendered) = [''captcha'']"
    and wid: "widgets scenario_B_rendered = [Selector ''#box'']"
    and log: "lifecycle_log scenario_B_rendered = [Injection ''captcha'']"
    and slot: "window_slots scenario_B_rendered ''onRecaptchaLoadCallback'' = Some scenario_B"
    and deps: "lastDeps scenario_B_rendered \<noteq> Some (deps_of scenario_C)"
    and gone: "filter (\<lambda>t. tag_id t \<noteq> ''captcha'') (document scenario_B_rendered) = []"
    by (simp_all add: scenario_B_rendered_def eval_defs scenario_defs)
  have key: "reCaptchaKey scenario_C = []"
    by (simp add: scenario_defs)
  have wgone: "(if element_truthy (Some (Selector ''#box''))
                then filter (\<lambda>w. Some w \<noteq> Some (Selector ''#box'')) (widgets scenario_B_rendered)
                else widgets scenario_B_rendered) = []"
    by (simp add: wid)
  note t = teardown_removes_script_keeps_callback [OF m cl, of scenario_C]
  from t have u1: "document (step Unmount scenario_B_rendered)
        = filter (\<lambda>t. tag_id t \<noteq> ''captcha'') (document scenario_B_rendered)"
    and u2: "lifecycle_log (step Unmount scenario_B_rendered)
        = lifecycle_log scenario_B_rendered @ [Teardown ''captcha'']"
    and u3: "window_slots (step Unmount scenario_B_rendered) = window_slots scenario_B_rendered"
    and u4: "widgets (step Unmount scenario_B_rendered)
        = (if element_truthy (Some (Selector ''#box''))
           then filter (\<lambda>w. Some w \<noteq> Some (Selector ''#box'')) (widgets scenario_B_rendered)
           else widgets scenario_B_rendered)"
    by blast+
  from t deps key
  have r1: "document (step (Rerender scenario_C) scenario_B_rendered)
        = filter (\<lambda>t. tag_id t \<noteq> ''captcha'') (document scenario_B_rendered)"
    and r2: "window_slots (step (Rerender scenario_C) scenario_B_rendered)
        = window_slots scenario_B_rendered"
    and r3: "widgets (step (Rerender scenario_C) scenario_B_rendered)
        = (if element_truthy (Some (Selector ''#box''))
           then filter (\<lambda>w. Some w \<noteq> Some (Selector ''#box'')) (widgets scenario_B_rendered)
           else widgets scenario_B_rendered)"
    by (simp_all del: step.simps)
  show ?thesis
    by (simp only: m cl doc wid deps u1 u2 u3 u4 r1 r2 r3 gone wgone log slot) simp
qed

text \<open>Scenario B, rendered again with another callback and with another language.\<close>

theorem restart_exactly_on_changed_deps_witness:
  "mounted (mount scenario_B) \<and> lastDeps (mount scenario_B) = Some (deps_of scenario_B)
   \<and> reCaptchaKey scenario_B = ''abc''
   \<and> cleanupFn (mount scenario_B)
       = Some (script_id scenario_B, container_element scenario_B)
   \<and> deps_of scenario_B_callback = deps_of scenario_B
   \<and> rerender scenario_B_callback (mount scenario_B) = mount scenario_B
   \<and> deps_of (scenario_B\<lparr>language := Some ''fr''\<rparr>) \<noteq> deps_of scenario_B
   \<and> lifecycle_log (rerender (scenario_B\<lparr>language := Some ''fr''\<rparr>) (mount scenario_B))
       = lifecycle_log (mount scenario_B) @ [Teardown ''captcha'', Injection ''captcha'']"
proof -
  have m: "mounted (mount scenario_B)"
    and d: "lastDeps (mount scenario_B) = Some (deps_of scenario_B)"
    and cl: "cleanupFn (mount scenario_B)
       = (if reCaptchaKey scenario_B = [] then None
          else Some (script_id scenario_B, container_element scenario_B))"
    by (simp_all add: mount_def effect_def helper_defs Let_def initial_state_def
        promiseWithResolvers_def scenario_B_def)
  have same: "deps_of scenario_B_callback = deps_of scenario_B"
    and other: "deps_of (scenario_B\<lparr>language := Some ''fr''\<rparr>) \<noteq> deps_of scenario_B"
    and key: "reCaptchaKey scenario_B = ''abc''"
      "reCaptchaKey (scenario_B\<lparr>language := Some ''fr''\<rparr>) = ''abc''"
    and sid: "script_id scenario_B = ''captcha''"
      "script_id (scenario_B\<lparr>language := Some ''fr''\<rparr>) = ''captcha''"
    by (simp_all add: deps_of_def scenario_defs JSON_stringify_def container_parameters_def
        container_element_def script_id_def opt_prop_def get_prop_def str_or_def)
  show ?thesis
    using restart_exactly_on_changed_deps [OF m d cl, of scenario_B_callback]
      restart_exactly_on_changed_deps [OF m d cl, of "scenario_B\<lparr>language := Some ''fr''\<rparr>"]
      m d cl same other key sid
    by simp
qed

text \<open>Scenario C reconfigured to scenario A, whose script loads and whose engine gets ready.\<close>

theorem deferred_value_created_once_witness:
  "promise (mount scenario_C) = Fulfilled None
   \<and> reCaptchaKey scenario_A \<noteq> []
   \<and> promise (run [Rerender scenario_A, ScriptRuns demo_engine,
                    ScriptLoad (last (document (rerender scenario_A (mount scenario_C)))),
                    EngineReady] (mount scenario_C)) = Fulfilled None
   \<and> executeRecaptcha
        (run [Rerender scenario_A, ScriptRuns demo_engine,
              ScriptLoad (last (document (rerender scenario_A (mount scenario_C)))),
              EngineReady] (mount scenario_C)) (Some ''login'')
       = Rejected not_loaded
   \<and> tag_onload (last (document (rerender scenario_A (mount scenario_C)))) = OnLoad False
   \<and> lifecycle_log (rerender scenario_A (mount scenario_C)) = [Injection ''google-recaptcha-v3'']"
proof -
  have p: "promise (mount scenario_C) = Fulfilled None"
    and key: "reCaptchaKey scenario_A \<noteq> []"
    and tag: "tag_onload (last (document (rerender scenario_A (mount scenario_C)))) = OnLoad False"
    and log: "lifecycle_log (rerender scenario_A (mount scenario_C))
              = [Injection ''google-recaptcha-v3'']"
    by (simp_all add: eval_defs scenario_defs)
  show ?thesis
    using deferred_value_created_once [of scenario_A "mount scenario_C" None
        "[Rerender scenario_A, ScriptRuns demo_engine,
          ScriptLoad (last (document (rerender scenario_A (mount scenario_C)))), EngineReady]"
        None "Some ''login''"] p key tag log
    by (simp add: resume_def del: run.simps step.simps)
qed

text \<open>Scenario A with two calls waiting when the engine gets ready.\<close>

theorem resolved_once_for_all_waiters_witness:
  "promise scenario_A_waiting = Pending
   \<and> waiting scenario_A_waiting = [Some ''login'', Some ''signup'']
   \<and> ready_callbacks scenario_A_waiting = [demo_namespace]
   \<and> promise (step EngineReady scenario_A_waiting) = Fulfilled (Some demo_namespace)
   \<and> waiting (step EngineReady scenario_A_waiting) = []
   \<and> settled_calls (step EngineReady scenario_A_waiting)
       = [(Some ''login'', Resolved ''token for key abc''),
          (Some ''signup'', Resolved ''token for key abc'')]
   \<and> promise (run [ScriptError (last (document (mount scenario_A))), Rerender scenario_C]
        (step EngineReady scenario_A_waiting)) = Fulfilled (Some demo_namespace)"
proof -
  have p: "promise scenario_A_waiting = Pending"
    and w: "waiting scenario_A_waiting = [Some ''login'', Some ''signup'']"
    and r: "ready_callbacks scenario_A_waiting = [demo_namespace]"
    and sc: "settled_calls scenario_A_waiting = []"
    and cid: "clientId scenario_A_waiting = IdStr ''abc''"
    by (simp_all add: scenario_A_waiting_def eval_defs scenario_defs)
  have p': "promise (step EngineReady scenario_A_waiting) = Fulfilled (Some demo_namespace)"
    using p r by (simp add: engine_ready_def resolve_def)
  have cid': "clientId (step EngineReady scenario_A_waiting) = IdStr ''abc''"
    using cid by simp
  have ex: "resume (Some demo_namespace) (IdStr ''abc'') = (\<lambda>a. Resolved ''token for key abc'')"
    by (simp add: resume_def demo_namespace_def fun_eq_iff)
  show ?thesis
    using resolved_once_for_all_waiters [of scenario_A_waiting None "[]" scenario_C False
        demo_namespace "[]" EngineReady "Some demo_namespace"]
      resolved_once_for_all_waiters [of "step EngineReady scenario_A_waiting" None
        "[ScriptError (last (document (mount scenario_A))), Rerender scenario_C]" scenario_C
        False demo_namespace "[]" EngineReady None]
      p w r sc p' cid' ex
    by (simp del: run.simps step.simps)
qed

text \<open>A call in scenario C.\<close>

theorem misuse_is_thrown_or_rejected_witness:
  "promise (mount scenario_C) = Fulfilled None
   \<and> default_executeRecaptcha (Some ''login'') \<noteq> Suspended
   \<and> executeRecaptcha (mount scenario_C) (Some ''login'')
       = Rejected (Error ''<GoogleReCaptchaProvider /> Google Recaptcha has not been loaded'')
   \<and> console (step (Execute (Some ''login'')) (mount scenario_C)) = console (mount scenario_C)
   \<and> settled_calls (step (Execute (Some ''login'')) (mount scenario_C))
       = [(Some ''login'',
           Rejected (Error ''<GoogleReCaptchaProvider /> Google Recaptcha has not been loaded''))]"
proof -
  have p: "promise (mount scenario_C) = Fulfilled None"
    and w: "waiting (mount scenario_C) = []" "settled_calls (mount scenario_C) = []"
    by (simp_all add: eval_defs scenario_defs)
  show ?thesis
    using misuse_is_thrown_or_rejected [of "Some ''login''" "mount scenario_C"] p w
    by (simp del: step.simps)
qed

end
